theory Spec2Isabelle
  imports Complex_Main
begin

section \<open>JavaScript values and option objects\<close>

text \<open>
  The component is written in JavaScript. A value that can stand in an option object is
  one of the constructors below; \<open>JNum\<close> carries a real number, so the arithmetic of
  the gesture engine is the arithmetic of the reals (IEEE rounding is outside this
  development, and so are options and host readings that are \<open>NaN\<close> or infinite). An
  option object is a finite map from property names to values; a property that is
  present can hold \<open>undefined\<close>.
\<close>

datatype js_value =
    JUndefined
  | JNull
  | JBool bool
  | JNum real
  | JStr string
  | JArray
  | JObject
  | JFunction

type_synonym js_object = "string \<rightharpoonup> js_value"

text \<open>Reading a property: a missing property reads as \<open>undefined\<close>.\<close>

definition getProp :: "js_object \<Rightarrow> string \<Rightarrow> js_value" where
  "getProp obj k = (case obj k of None \<Rightarrow> JUndefined | Some v \<Rightarrow> v)"

text \<open>\<open>ToBoolean\<close>, as an \<open>if\<close> or a \<open>||\<close> applies it.\<close>

fun truthy :: "js_value \<Rightarrow> bool" where
  "truthy JUndefined = False"
| "truthy JNull = False"
| "truthy (JBool b) = b"
| "truthy (JNum r) = (r \<noteq> 0)"
| "truthy (JStr s) = (s \<noteq> [])"
| "truthy JArray = True"
| "truthy JObject = True"
| "truthy JFunction = True"

text \<open>
  The numeric reading of an option. \<open>validateConfigTypes\<close> admits only numbers (or
  \<open>undefined\<close>) for the numeric options. On a value that is not a number the
  arithmetic of the code gives \<open>NaN\<close>, which the last equation does not show: what
  is stated about the resistance function, the ratio of a slide notification and the
  decision at the end of a drag assumes that the options read there hold numbers.
\<close>

fun num :: "js_value \<Rightarrow> real" where
  "num (JNum r) = r"
| "num _ = 0"

section \<open>Numbers that need not be finite\<close>

text \<open>
  The settle animation divides by the option \<open>animationDuration\<close>, which can be zero.
  What it then writes to the panel and to the backdrop is a real number, \<open>NaN\<close> or an
  infinity. The operations below are those of JavaScript on such values, rounding apart;
  there is one zero, read as the positive zero where a number is divided by it.
\<close>

datatype js_number = Finite real | NaN | Infinity | NegInfinity

fun num_neg :: "js_number \<Rightarrow> js_number" where
  "num_neg (Finite x) = Finite (- x)"
| "num_neg NaN = NaN"
| "num_neg Infinity = NegInfinity"
| "num_neg NegInfinity = Infinity"

fun num_add :: "js_number \<Rightarrow> js_number \<Rightarrow> js_number" where
  "num_add (Finite x) (Finite y) = Finite (x + y)"
| "num_add (Finite x) NaN = NaN"
| "num_add (Finite x) Infinity = Infinity"
| "num_add (Finite x) NegInfinity = NegInfinity"
| "num_add NaN b = NaN"
| "num_add Infinity (Finite y) = Infinity"
| "num_add Infinity NaN = NaN"
| "num_add Infinity Infinity = Infinity"
| "num_add Infinity NegInfinity = NaN"
| "num_add NegInfinity (Finite y) = NegInfinity"
| "num_add NegInfinity NaN = NaN"
| "num_add NegInfinity Infinity = NaN"
| "num_add NegInfinity NegInfinity = NegInfinity"

definition num_sub :: "js_number \<Rightarrow> js_number \<Rightarrow> js_number" where
  "num_sub a b = num_add a (num_neg b)"

text \<open>The infinity of the sign of a real number that is not zero.\<close>

definition infinityOf :: "real \<Rightarrow> js_number" where
  "infinityOf x = (if 0 < x then Infinity else NegInfinity)"

fun num_mul :: "js_number \<Rightarrow> js_number \<Rightarrow> js_number" where
  "num_mul (Finite x) (Finite y) = Finite (x * y)"
| "num_mul (Finite x) NaN = NaN"
| "num_mul (Finite x) Infinity = (if x = 0 then NaN else infinityOf x)"
| "num_mul (Finite x) NegInfinity = (if x = 0 then NaN else infinityOf (- x))"
| "num_mul NaN b = NaN"
| "num_mul Infinity (Finite y) = (if y = 0 then NaN else infinityOf y)"
| "num_mul Infinity NaN = NaN"
| "num_mul Infinity Infinity = Infinity"
| "num_mul Infinity NegInfinity = NegInfinity"
| "num_mul NegInfinity (Finite y) = (if y = 0 then NaN else infinityOf (- y))"
| "num_mul NegInfinity NaN = NaN"
| "num_mul NegInfinity Infinity = NegInfinity"
| "num_mul NegInfinity NegInfinity = Infinity"

fun num_div :: "js_number \<Rightarrow> js_number \<Rightarrow> js_number" where
  "num_div (Finite x) (Finite y) =
     (if y \<noteq> 0 then Finite (x / y) else if x = 0 then NaN else infinityOf x)"
| "num_div (Finite x) NaN = NaN"
| "num_div (Finite x) Infinity = Finite 0"
| "num_div (Finite x) NegInfinity = Finite 0"
| "num_div NaN b = NaN"
| "num_div Infinity (Finite y) = (if 0 \<le> y then Infinity else NegInfinity)"
| "num_div Infinity NaN = NaN"
| "num_div Infinity Infinity = NaN"
| "num_div Infinity NegInfinity = NaN"
| "num_div NegInfinity (Finite y) = (if 0 \<le> y then NegInfinity else Infinity)"
| "num_div NegInfinity NaN = NaN"
| "num_div NegInfinity Infinity = NaN"
| "num_div NegInfinity NegInfinity = NaN"

text \<open>\<open>a < b\<close>: false when either side is \<open>NaN\<close>.\<close>

fun num_less :: "js_number \<Rightarrow> js_number \<Rightarrow> bool" where
  "num_less (Finite x) (Finite y) = (x < y)"
| "num_less (Finite x) NaN = False"
| "num_less (Finite x) Infinity = True"
| "num_less (Finite x) NegInfinity = False"
| "num_less NaN b = False"
| "num_less Infinity b = False"
| "num_less NegInfinity (Finite y) = True"
| "num_less NegInfinity NaN = False"
| "num_less NegInfinity Infinity = True"
| "num_less NegInfinity NegInfinity = False"

text \<open>\<open>Math.min\<close> and \<open>Math.max\<close> of two numbers: \<open>NaN\<close> when either is.\<close>

definition Math_min :: "js_number \<Rightarrow> js_number \<Rightarrow> js_number" where
  "Math_min a b = (if a = NaN \<or> b = NaN then NaN else if num_less b a then b else a)"

definition Math_max :: "js_number \<Rightarrow> js_number \<Rightarrow> js_number" where
  "Math_max a b = (if a = NaN \<or> b = NaN then NaN else if num_less a b then b else a)"

text \<open>\<open>Math.pow\<close> with an exponent that is a natural number.\<close>

fun Math_pow :: "js_number \<Rightarrow> nat \<Rightarrow> js_number" where
  "Math_pow (Finite x) n = Finite (x ^ n)"
| "Math_pow NaN n = (if n = 0 then Finite 1 else NaN)"
| "Math_pow Infinity n = (if n = 0 then Finite 1 else Infinity)"
| "Math_pow NegInfinity n = (if n = 0 then Finite 1 else if odd n then NegInfinity else Infinity)"

section \<open>utils.js\<close>

definition clamp :: "js_number \<Rightarrow> js_number \<Rightarrow> js_number \<Rightarrow> js_number" where
  "clamp v lo hi = Math_max lo (Math_min hi v)"

text \<open>
  \<open>getValueType\<close> is \<open>Object.prototype.toString.call(value).slice(8, -1).toLowerCase()\<close>:
  the class tag between \<open>[object\<close> and \<open>]\<close>, in lower case.
\<close>

fun classTag :: "js_value \<Rightarrow> string" where
  "classTag JUndefined = ''Undefined''"
| "classTag JNull = ''Null''"
| "classTag (JBool b) = ''Boolean''"
| "classTag (JNum r) = ''Number''"
| "classTag (JStr s) = ''String''"
| "classTag JArray = ''Array''"
| "classTag JObject = ''Object''"
| "classTag JFunction = ''Function''"

definition objectToString :: "js_value \<Rightarrow> string" where
  "objectToString v = ''[object '' @ classTag v @ '']''"

definition slice_8_m1 :: "string \<Rightarrow> string" where
  "slice_8_m1 s = take (length s - 1 - 8) (drop 8 s)"

definition lowerChar :: "char \<Rightarrow> char" where
  "lowerChar c =
     (case map_of (zip ''ABCDEFGHIJKLMNOPQRSTUVWXYZ'' ''abcdefghijklmnopqrstuvwxyz'') c of
        None \<Rightarrow> c
      | Some l \<Rightarrow> l)"

definition toLowerCase :: "string \<Rightarrow> string" where
  "toLowerCase s = map lowerChar s"

definition getValueType :: "js_value \<Rightarrow> string" where
  "getValueType v = toLowerCase (slice_8_m1 (objectToString v))"

text \<open>
  \<open>parseExpectedTypes\<close>: remove white space, remove one leading \<open>(\<close> and one trailing
  \<open>)\<close>, split at \<open>|\<close>, drop the empty pieces.
\<close>

definition isSpace :: "char \<Rightarrow> bool" where
  "isSpace c = (c \<in> set [CHR '' '', CHR 0x09, CHR 0x0A, CHR 0x0B, CHR 0x0C, CHR 0x0D])"

definition stripParens :: "string \<Rightarrow> string" where
  "stripParens s =
     (let s1 = (case s of [] \<Rightarrow> [] | c # cs \<Rightarrow> if c = CHR ''('' then cs else s)
      in if s1 \<noteq> [] \<and> last s1 = CHR '')'' then butlast s1 else s1)"

fun splitOn :: "char \<Rightarrow> string \<Rightarrow> string list" where
  "splitOn sep [] = [[]]"
| "splitOn sep (c # cs) =
     (if c = sep then [] # splitOn sep cs
      else (case splitOn sep cs of
              [] \<Rightarrow> [[c]]
            | p # ps \<Rightarrow> (c # p) # ps))"

definition parseExpectedTypes :: "string \<Rightarrow> string list" where
  "parseExpectedTypes types =
     filter (\<lambda>p. p \<noteq> []) (splitOn CHR ''|'' (stripParens (filter (\<lambda>c. \<not> isSpace c) types)))"

fun joinWith :: "string \<Rightarrow> string list \<Rightarrow> string" where
  "joinWith sep [] = []"
| "joinWith sep [p] = p"
| "joinWith sep (p # q # ps) = p @ sep @ joinWith sep (q # ps)"

datatype error = Error string | TypeError string

definition invalidTypeMessage :: "string \<Rightarrow> string \<Rightarrow> string list \<Rightarrow> string \<Rightarrow> string" where
  "invalidTypeMessage componentName propertyName allowedTypes actualType =
     ''['' @ componentName @ ''] Option '' @ [CHR 0x22] @ propertyName @ [CHR 0x22]
       @ '' has invalid type: expected '' @ joinWith '' | '' allowedTypes
       @ '', but received '' @ actualType @ ''.''"

text \<open>
  \<open>validateConfigTypes\<close> walks the type table in its declaration order and throws at
  the first option whose value is defined and of a type that is not allowed. The result
  is \<open>None\<close> when nothing is thrown.
\<close>

fun validateConfigTypes :: "string \<Rightarrow> js_object \<Rightarrow> (string \<times> string) list \<Rightarrow> error option" where
  "validateConfigTypes componentName config [] = None"
| "validateConfigTypes componentName config ((propertyName, expectedTypes) # rest) =
     (let actualValue = getProp config propertyName
      in if actualValue = JUndefined then validateConfigTypes componentName config rest
         else let actualType = getValueType actualValue;
                  allowedTypes = parseExpectedTypes expectedTypes;
                  isValid = list_ex (\<lambda>allowedType. actualType = allowedType) allowedTypes
              in if \<not> isValid
                 then Some (TypeError
                        (invalidTypeMessage componentName propertyName allowedTypes actualType))
                 else validateConfigTypes componentName config rest)"

section \<open>constants.js\<close>

definition NAME :: string where
  "NAME = ''sheet''"

definition Default :: js_object where
  "Default = map_of
     [(''backdrop'', JBool True),
      (''keyboard'', JBool True),
      (''focus'', JBool True),
      (''gestures'', JBool True),
      (''swipeThreshold'', JNum 50),
      (''velocityThreshold'', JNum 0.5),
      (''minCloseDistance'', JNum 50),
      (''closeThresholdRatio'', JNum 0.3),
      (''animationDuration'', JNum 300),
      (''projectionTime'', JNum 200),
      (''dragResistanceUp'', JNum 0.75),
      (''dragResistanceDown'', JNum 0.01)]"

definition DefaultType :: "(string \<times> string) list" where
  "DefaultType =
     [(''backdrop'', ''(boolean|string)''),
      (''keyboard'', ''boolean''),
      (''focus'', ''boolean''),
      (''gestures'', ''boolean''),
      (''swipeThreshold'', ''number''),
      (''velocityThreshold'', ''number''),
      (''minCloseDistance'', ''number''),
      (''closeThresholdRatio'', ''number''),
      (''animationDuration'', ''number''),
      (''projectionTime'', ''number''),
      (''dragResistanceUp'', ''number''),
      (''dragResistanceDown'', ''number'')]"

section \<open>The host document\<close>

text \<open>
  Elements are identified by numbers. The record below holds the part of the page that
  the component reads or writes: the children of \<open>body\<close>, the \<open>inert\<close> property and
  the \<open>aria-hidden\<close> attribute of each element, two inline style properties of
  \<open>body\<close>, the focused element, the events dispatched so far, the calls of
  \<open>focus()\<close> made so far, and the module's registry \<open>INSTANCES\<close> from
  elements to instances (an instance is named by a reference, a number). The remaining
  fields are readings the host gives and the component never changes: whether
  \<open>inert\<close> is supported, whether the body overflows the window, the width of the
  scroll bar, element heights, whether an element has a \<open>focus\<close> method, the
  focusable elements a query inside a panel returns, whether a panel has a drag handle,
  what a selector resolves to, and the option object that \<open>extractDataAttributes\<close>
  reads off an element. \<open>attributes\<close> holds the attributes that the constructor sets.

  Calls that leave no trace in this state are left out: \<open>reflow\<close>, the capture and
  release of the pointer, \<open>preventDefault\<close> on pointer events, logging, and the
  temporary element that measures the scroll bar.
\<close>

type_synonym node = nat

datatype css_value = CssEmpty | CssPx real | CssText string

datatype event_name = SHOW | SHOWN | HIDE | HIDDEN | SLIDE

record slide_detail =
  d_velocity :: real
  d_adjustedY :: real
  d_deltaY :: real
  d_ratio :: real

record custom_event =
  ev_name :: event_name
  ev_detail :: "slide_detail option"
  bubbles :: bool
  cancelable :: bool
  defaultPrevented :: bool

text \<open>
  The listeners registered on a panel are seen through one question: does some listener
  call \<open>preventDefault()\<close> on this event? Dispatching follows the DOM: the call has an
  effect only on a cancelable event.
\<close>

type_synonym listeners = "custom_event \<Rightarrow> bool"

definition dispatchEvent :: "listeners \<Rightarrow> custom_event \<Rightarrow> custom_event" where
  "dispatchEvent L e = e\<lparr>defaultPrevented := (cancelable e \<and> L e)\<rparr>"

record document =
  bodyChildren :: "node list"
  inert :: "node \<Rightarrow> bool"
  ariaHidden :: "node \<Rightarrow> string option"
  paddingRight :: css_value
  overflow :: css_value
  activeElement :: "node option"
  dispatched :: "custom_event list"
  focusCalls :: "node list"
  nextNode :: node
  INSTANCES :: "node \<rightharpoonup> nat"
  SUPPORTS_INERT :: bool
  isOverflowing :: bool
  scrollbarWidth :: real
  offsetHeight :: "node \<Rightarrow> real"
  boundingHeight :: "node \<Rightarrow> real"
  hasFocusMethod :: "node \<Rightarrow> bool"
  focusableIn :: "node \<Rightarrow> node list"
  hasDragHandle :: "node \<Rightarrow> bool"
  querySelector :: "string \<Rightarrow> node option"
  dataAttributes :: "node \<Rightarrow> js_object"
  attributes :: "node \<Rightarrow> string \<rightharpoonup> string"

definition focusOn :: "node \<Rightarrow> document \<Rightarrow> document" where
  "focusOn n d = d\<lparr>activeElement := Some n, focusCalls := focusCalls d @ [n]\<rparr>"

section \<open>The private fields of an instance\<close>

datatype transition = TransitionNone | TransitionOpacity real

record backdrop_el =
  bd_node :: node
  bd_opacity :: js_number
  bd_transition :: transition
  bd_static :: bool
  bd_clickHides :: bool

record gesture =
  startY :: real
  currentY :: real
  lastY :: real
  startTime :: real
  lastTime :: real
  velocity :: real
  startTranslateY :: real
  sheetHeight :: real

datatype class_name = CLS_SHOW | CLS_SHOWING | CLS_HIDING | CLS_DRAGGING | CLS_STATIC_SHAKE

text \<open>
  A callback waiting for the next render frame is either the position update of a drag
  or a step of the settle animation, which carries the start offset, the distance, the
  duration, the start time and what to do on completion.
\<close>

datatype on_complete = NoCallback | CallHide

datatype frame_callback = PositionUpdate | Animate real real real real on_complete

text \<open>
  \<open>executeAfterTransition\<close> returns a cancel function; the callback behind it either
  still waits for the end of the transition or has been run or cancelled.
\<close>

datatype transition_token = Pending | Settled

datatype previous_state = PrevInert bool | PrevAriaHidden "string option"

record sheet =
  element :: "node option"
  config :: js_object
  backdrop :: "backdrop_el option"
  isShown :: bool
  isTransitioning :: bool
  isDragging :: bool
  animationFrame :: bool
  frameCallback :: "frame_callback option"
  openTimeout :: "transition_token option"
  closeTimeout :: "transition_token option"
  h_escape :: bool
  h_dismiss :: bool
  h_focusTrap :: bool
  h_pointerDown :: bool
  h_pointerMove :: bool
  h_pointerUp :: bool
  previousElement :: "node option"
  focusableElements :: "node list option"
  mutationObserver :: bool
  inertedNodes :: "(node \<times> previous_state) list"
  gesture :: gesture
  classList :: "class_name set"
  transform :: "js_number option"

text \<open>
  \<open>animationFrame\<close> says whether the field of that name holds a frame id;
  \<open>frameCallback\<close> is the callback the host will run at the next frame, if any.
  \<open>h_escape\<close> to \<open>h_pointerUp\<close> say whether the handler of that name is attached.
\<close>

definition cfg :: "sheet \<Rightarrow> string \<Rightarrow> js_value" where
  "cfg s k = getProp (config s) k"

definition initialGesture :: gesture where
  "initialGesture =
     \<lparr>startY = 0, currentY = 0, lastY = 0, startTime = 0, lastTime = 0, velocity = 0,
      startTranslateY = 0, sheetHeight = 0\<rparr>"

definition newSheet :: "node \<Rightarrow> js_object \<Rightarrow> sheet" where
  "newSheet el c =
     \<lparr>element = Some el, config = c, backdrop = None,
      isShown = False, isTransitioning = False, isDragging = False,
      animationFrame = False, frameCallback = None,
      openTimeout = None, closeTimeout = None,
      h_escape = False, h_dismiss = False, h_focusTrap = False,
      h_pointerDown = False, h_pointerMove = False, h_pointerUp = False,
      previousElement = None, focusableElements = None, mutationObserver = False,
      inertedNodes = [], gesture = initialGesture, classList = {}, transform = None\<rparr>"

section \<open>Notifications\<close>

definition triggerEvent ::
  "listeners \<Rightarrow> event_name \<Rightarrow> slide_detail option \<Rightarrow> sheet \<times> document
     \<Rightarrow> custom_event \<times> sheet \<times> document" where
  "triggerEvent L name det sd =
     (case sd of (s, d) \<Rightarrow>
        let event = dispatchEvent L
              \<lparr>ev_name = name, ev_detail = det, bubbles = True, cancelable = True,
               defaultPrevented = False\<rparr>
        in (event, s, d\<lparr>dispatched := dispatched d @ [event]\<rparr>))"

section \<open>Backdrop\<close>

definition createBackdrop :: "sheet \<times> document \<Rightarrow> sheet \<times> document" where
  "createBackdrop sd =
     (case sd of (s, d) \<Rightarrow>
        let isStatic = (cfg s ''backdrop'' = JStr ''static'');
            bd = \<lparr>bd_node = nextNode d, bd_opacity = Finite 0,
                  bd_transition = TransitionOpacity (num (cfg s ''animationDuration'')),
                  bd_static = isStatic, bd_clickHides = (\<not> isStatic)\<rparr>
        in (s\<lparr>backdrop := Some bd\<rparr>,
            d\<lparr>bodyChildren := bodyChildren d @ [nextNode d], nextNode := Suc (nextNode d)\<rparr>))"

definition removeBackdrop :: "sheet \<times> document \<Rightarrow> sheet \<times> document" where
  "removeBackdrop sd =
     (case sd of (s, d) \<Rightarrow>
        (case backdrop s of
           None \<Rightarrow> sd
         | Some bd \<Rightarrow>
             (s\<lparr>backdrop := None\<rparr>,
              d\<lparr>bodyChildren := filter (\<lambda>n. n \<noteq> bd_node bd) (bodyChildren d)\<rparr>)))"

definition updateBackdropOpacity :: "js_number \<Rightarrow> sheet \<Rightarrow> sheet" where
  "updateBackdropOpacity ratio s =
     (if \<not> truthy (cfg s ''backdrop'') then s
      else (case backdrop s of
              None \<Rightarrow> s
            | Some bd \<Rightarrow> s\<lparr>backdrop := Some (bd\<lparr>bd_opacity := clamp ratio (Finite 0) (Finite 1)\<rparr>)\<rparr>))"

definition showBackdrop :: "sheet \<times> document \<Rightarrow> sheet \<times> document" where
  "showBackdrop sd =
     (case (if backdrop (fst sd) = None then createBackdrop sd else sd) of
        (s, d) \<Rightarrow> (updateBackdropOpacity (Finite 1) s, d))"

definition setBackdropTransition :: "transition \<Rightarrow> sheet \<Rightarrow> sheet" where
  "setBackdropTransition tr s =
     (case backdrop s of
        None \<Rightarrow> s
      | Some bd \<Rightarrow> s\<lparr>backdrop := Some (bd\<lparr>bd_transition := tr\<rparr>)\<rparr>)"

section \<open>Body scroll\<close>

definition adjustBodyPadding :: "document \<Rightarrow> document" where
  "adjustBodyPadding d =
     (if isOverflowing d
      then (if scrollbarWidth d > 0
            then d\<lparr>paddingRight := CssPx (scrollbarWidth d), overflow := CssText ''hidden''\<rparr>
            else d)
      else d)"

definition resetBodyPadding :: "document \<Rightarrow> document" where
  "resetBodyPadding d = d\<lparr>paddingRight := CssEmpty, overflow := CssEmpty\<rparr>"

section \<open>Inert\<close>

text \<open>\<open>Map.prototype.set\<close>: an existing key keeps its place, a new key goes last.\<close>

fun mapSet :: "'k \<Rightarrow> 'v \<Rightarrow> ('k \<times> 'v) list \<Rightarrow> ('k \<times> 'v) list" where
  "mapSet k v [] = [(k, v)]"
| "mapSet k v ((k', v') # kvs) =
     (if k' = k then (k', v) # kvs else (k', v') # mapSet k v kvs)"

definition applyInertNode :: "node \<Rightarrow> sheet \<times> document \<Rightarrow> sheet \<times> document" where
  "applyInertNode n sd =
     (case sd of (s, d) \<Rightarrow>
        if map_option bd_node (backdrop s) = Some n \<or> element s = Some n then sd
        else if SUPPORTS_INERT d
        then (s\<lparr>inertedNodes := mapSet n (PrevInert (inert d n)) (inertedNodes s)\<rparr>,
              d\<lparr>inert := (inert d)(n := True)\<rparr>)
        else (s\<lparr>inertedNodes := mapSet n (PrevAriaHidden (ariaHidden d n)) (inertedNodes s)\<rparr>,
              d\<lparr>ariaHidden := (ariaHidden d)(n \<mapsto> ''true'')\<rparr>))"

definition applyInert :: "sheet \<times> document \<Rightarrow> sheet \<times> document" where
  "applyInert sd = fold applyInertNode (bodyChildren (snd sd)) sd"

definition restoreNode :: "node \<times> previous_state \<Rightarrow> document \<Rightarrow> document" where
  "restoreNode entry d =
     (case entry of (n, previousState) \<Rightarrow>
        if SUPPORTS_INERT d
        then d\<lparr>inert := (inert d)
                 (n := (case previousState of PrevInert b \<Rightarrow> b | PrevAriaHidden a \<Rightarrow> False))\<rparr>
        else (case previousState of
                PrevAriaHidden (Some a) \<Rightarrow> d\<lparr>ariaHidden := (ariaHidden d)(n \<mapsto> a)\<rparr>
              | _ \<Rightarrow> d\<lparr>ariaHidden := (ariaHidden d)(n := None)\<rparr>))"

definition removeInert :: "sheet \<times> document \<Rightarrow> sheet \<times> document" where
  "removeInert sd =
     (case sd of (s, d) \<Rightarrow>
        if inertedNodes s = [] then sd
        else (s\<lparr>inertedNodes := []\<rparr>, fold restoreNode (inertedNodes s) d))"

section \<open>Focus management\<close>

definition updateFocusableElements :: "sheet \<times> document \<Rightarrow> sheet \<times> document" where
  "updateFocusableElements sd =
     (case sd of (s, d) \<Rightarrow>
        (case element s of
           None \<Rightarrow> sd
         | Some el \<Rightarrow> (s\<lparr>focusableElements := Some (focusableIn d el)\<rparr>, d)))"

definition startFocusManagement :: "sheet \<times> document \<Rightarrow> sheet \<times> document" where
  "startFocusManagement sd =
     (case updateFocusableElements sd of
        (s, d) \<Rightarrow> (s\<lparr>h_focusTrap := True, mutationObserver := True\<rparr>, d))"

definition stopFocusManagement :: "sheet \<Rightarrow> sheet" where
  "stopFocusManagement s = s\<lparr>h_focusTrap := False, mutationObserver := False\<rparr>"

definition trapFocus :: "sheet \<times> document \<Rightarrow> sheet \<times> document" where
  "trapFocus sd =
     (case updateFocusableElements sd of
        (s, d) \<Rightarrow>
          (case focusableElements s of
             Some (first # others) \<Rightarrow> (s, focusOn first d)
           | _ \<Rightarrow> (case element s of None \<Rightarrow> (s, d) | Some el \<Rightarrow> (s, focusOn el d))))"

definition restoreFocus :: "sheet \<times> document \<Rightarrow> sheet \<times> document" where
  "restoreFocus sd =
     (case sd of (s, d) \<Rightarrow>
        (case previousElement s of
           None \<Rightarrow> sd
         | Some prev \<Rightarrow> if hasFocusMethod d prev then (s, focusOn prev d) else sd))"

section \<open>Event handlers\<close>

definition attachGestureHandlers :: "sheet \<times> document \<Rightarrow> sheet \<times> document" where
  "attachGestureHandlers sd =
     (case sd of (s, d) \<Rightarrow>
        (case element s of
           None \<Rightarrow> sd
         | Some el \<Rightarrow>
             if \<not> hasDragHandle d el then sd
             else (s\<lparr>h_pointerDown := True, h_pointerMove := True, h_pointerUp := True\<rparr>, d)))"

definition detachGestureHandlers :: "sheet \<Rightarrow> sheet" where
  "detachGestureHandlers s =
     s\<lparr>h_pointerDown := False, h_pointerMove := False, h_pointerUp := False\<rparr>"

definition attachEventHandlers :: "sheet \<times> document \<Rightarrow> sheet \<times> document" where
  "attachEventHandlers sd =
     (case sd of (s, d) \<Rightarrow>
        let s1 = (if \<not> truthy (cfg s ''keyboard'') then s else s\<lparr>h_escape := True\<rparr>);
            s2 = s1\<lparr>h_dismiss := True\<rparr>
        in if truthy (cfg s2 ''gestures'') then attachGestureHandlers (s2, d) else (s2, d))"

definition detachEventHandlers :: "sheet \<Rightarrow> sheet" where
  "detachEventHandlers s =
     (let s1 = s\<lparr>h_escape := False\<rparr>;
          s2 = s1\<lparr>h_dismiss := False\<rparr>
      in if truthy (cfg s2 ''gestures'') then detachGestureHandlers s2 else s2)"

definition shakeSheet :: "sheet \<Rightarrow> sheet" where
  "shakeSheet s = s\<lparr>classList := insert CLS_STATIC_SHAKE (classList s)\<rparr>"

section \<open>Utilities of the instance\<close>

definition cancelAnimations :: "sheet \<Rightarrow> sheet" where
  "cancelAnimations s =
     (if animationFrame s then s\<lparr>animationFrame := False, frameCallback := None\<rparr> else s)"

definition abortDrag :: "sheet \<Rightarrow> sheet" where
  "abortDrag s =
     (if \<not> isDragging s then s
      else cancelAnimations
             (setBackdropTransition (TransitionOpacity (num (cfg s ''animationDuration'')))
                (s\<lparr>isDragging := False\<rparr>)))"

definition cleanup :: "sheet \<times> document \<Rightarrow> sheet \<times> document" where
  "cleanup sd =
     (case sd of (s, d) \<Rightarrow>
        let s1 = s\<lparr>isShown := False, isTransitioning := False, isDragging := False\<rparr>;
            s2 = s1\<lparr>openTimeout := None\<rparr>;
            s3 = s2\<lparr>closeTimeout := None\<rparr>;
            d1 = resetBodyPadding d
        in (case removeBackdrop (s3, d1) of
              (s4, d2) \<Rightarrow>
                let s5 = detachEventHandlers s4;
                    s6 = cancelAnimations s5;
                    s7 = s6\<lparr>mutationObserver := False\<rparr>
                in removeInert (s7, d2)))"

section \<open>Show\<close>

definition prepareShow :: "sheet \<times> document \<Rightarrow> sheet \<times> document" where
  "prepareShow sd =
     (case sd of (s, d) \<Rightarrow>
        (case element s of
           None \<Rightarrow> sd
         | Some el \<Rightarrow>
             (s\<lparr>isShown := True, isTransitioning := True,
                previousElement := activeElement d,
                gesture := (gesture s)
                  \<lparr>sheetHeight :=
                     (if offsetHeight d el \<noteq> 0 then offsetHeight d el
                      else if boundingHeight d el \<noteq> 0 then boundingHeight d el
                      else 0)\<rparr>\<rparr>,
              d)))"

definition executeShow :: "sheet \<times> document \<Rightarrow> sheet \<times> document" where
  "executeShow sd =
     (case (if truthy (cfg (fst sd) ''backdrop'') then showBackdrop sd else sd) of
        sd1 \<Rightarrow>
          (case applyInert sd1 of
             (s2, d2) \<Rightarrow>
               let d3 = adjustBodyPadding d2;
                   s3 = s2\<lparr>classList := insert CLS_SHOWING (classList s2)\<rparr>;
                   s4 = s3\<lparr>classList := insert CLS_SHOW (classList s3)\<rparr>
               in (case attachEventHandlers (s4, d3) of
                     sd5 \<Rightarrow>
                       (case (if truthy (cfg (fst sd5) ''focus'')
                              then startFocusManagement sd5 else sd5) of
                          (s6, d6) \<Rightarrow> (s6\<lparr>openTimeout := Some Pending\<rparr>, d6)))))"

definition finalizeShow :: "listeners \<Rightarrow> sheet \<times> document \<Rightarrow> sheet \<times> document" where
  "finalizeShow L sd =
     (case sd of (s, d) \<Rightarrow>
        let s1 = s\<lparr>classList := classList s - {CLS_SHOWING}, isTransitioning := False\<rparr>;
            sd2 = (if truthy (cfg s1 ''focus'') then trapFocus (s1, d) else (s1, d))
        in snd (triggerEvent L SHOWN None sd2))"

definition show_sheet :: "listeners \<Rightarrow> sheet \<times> document \<Rightarrow> sheet \<times> document" where
  "show_sheet L sd =
     (case sd of (s, d) \<Rightarrow>
        if element s = None then sd
        else if isShown s \<or> isTransitioning s then sd
        else (case triggerEvent L SHOW None sd of
                (showEvent, sd1) \<Rightarrow>
                  if defaultPrevented showEvent then sd1
                  else executeShow (prepareShow sd1)))"

section \<open>Hide\<close>

definition prepareHide :: "sheet \<Rightarrow> sheet" where
  "prepareHide s =
     (let s1 = s\<lparr>isShown := False, isTransitioning := True\<rparr>;
          s2 = (if isDragging s1 then abortDrag s1 else s1);
          s3 = (if truthy (cfg s2 ''focus'') then stopFocusManagement s2 else s2);
          s4 = s3\<lparr>classList := insert CLS_HIDING (classList s3)\<rparr>;
          s5 = s4\<lparr>classList := classList s4 - {CLS_DRAGGING, CLS_SHOW}\<rparr>
      in s5\<lparr>transform := None\<rparr>)"

definition executeHide :: "sheet \<times> document \<Rightarrow> sheet \<times> document" where
  "executeHide sd =
     (case sd of (s, d) \<Rightarrow>
        let s1 = detachEventHandlers s;
            s2 = cancelAnimations s1
        in (case removeInert (s2, d) of
              (s3, d3) \<Rightarrow>
                let s4 = updateBackdropOpacity (Finite 0) s3
                in (s4\<lparr>closeTimeout := Some Pending\<rparr>, d3)))"

definition finalizeHide :: "listeners \<Rightarrow> sheet \<times> document \<Rightarrow> sheet \<times> document" where
  "finalizeHide L sd =
     (case sd of (s, d) \<Rightarrow>
        let s1 = s\<lparr>classList := classList s - {CLS_HIDING}, isTransitioning := False\<rparr>
        in (case removeBackdrop (s1, d) of
              (s2, d2) \<Rightarrow>
                let d3 = resetBodyPadding d2;
                    sd4 = restoreFocus (s2, d3)
                in snd (triggerEvent L HIDDEN None sd4)))"

definition hide_sheet :: "listeners \<Rightarrow> sheet \<times> document \<Rightarrow> sheet \<times> document" where
  "hide_sheet L sd =
     (case sd of (s, d) \<Rightarrow>
        if element s = None then sd
        else if \<not> isShown s \<or> isTransitioning s then sd
        else (case triggerEvent L HIDE None sd of
                (hideEvent, s1, d1) \<Rightarrow>
                  if defaultPrevented hideEvent then (s1, d1)
                  else executeHide (prepareHide s1, d1)))"

definition toggle_sheet :: "listeners \<Rightarrow> sheet \<times> document \<Rightarrow> sheet \<times> document" where
  "toggle_sheet L sd = (if isShown (fst sd) then hide_sheet L sd else show_sheet L sd)"

section \<open>Gestures\<close>

definition onPointerDown :: "real \<Rightarrow> real \<Rightarrow> real \<Rightarrow> sheet \<Rightarrow> sheet" where
  "onPointerDown clientY now translateY s =
     (let s1 = s\<lparr>isDragging := True,
                  gesture := (gesture s)
                    \<lparr>startY := clientY, currentY := clientY, lastY := clientY,
                     startTime := now, lastTime := now, velocity := 0,
                     startTranslateY := translateY\<rparr>\<rparr>;
          s2 = setBackdropTransition TransitionNone s1
      in s2\<lparr>classList := insert CLS_DRAGGING (classList s2)\<rparr>)"

definition schedulePositionUpdate :: "sheet \<Rightarrow> sheet" where
  "schedulePositionUpdate s = s\<lparr>animationFrame := True, frameCallback := Some PositionUpdate\<rparr>"

definition onPointerMove :: "real \<Rightarrow> real \<Rightarrow> sheet \<Rightarrow> sheet" where
  "onPointerMove clientY now s =
     (if \<not> isDragging s \<or> \<not> isShown s then s
      else let g1 = (gesture s)\<lparr>currentY := clientY\<rparr>;
               deltaTime = now - lastTime g1;
               g2 = (if deltaTime > 0
                     then g1\<lparr>velocity := (currentY g1 - lastY g1) / deltaTime\<rparr>
                     else g1);
               g3 = g2\<lparr>lastY := currentY g2, lastTime := now\<rparr>
           in schedulePositionUpdate (s\<lparr>gesture := g3\<rparr>))"

text \<open>
  The quotient of the resistance function is taken on the reals. Where its divisor is
  zero (no height and no resistance, or a negative resistance) the code yields an
  infinity or \<open>NaN\<close>, which this definition does not show: what is proved about it
  assumes a positive height and a resistance that is not negative.
\<close>

definition calculateResistantPosition :: "sheet \<Rightarrow> real \<Rightarrow> real" where
  "calculateResistantPosition s deltaY =
     (if deltaY = 0 then startTranslateY (gesture s)
      else let scale = sheetHeight (gesture s) * 0.25;
               resistance = (if deltaY < 0 then num (cfg s ''dragResistanceUp'')
                             else num (cfg s ''dragResistanceDown''));
               adjustedDelta = (deltaY * scale) / (scale + resistance * \<bar>deltaY\<bar>)
           in startTranslateY (gesture s) + adjustedDelta)"

definition updateDragPosition ::
  "listeners \<Rightarrow> real \<Rightarrow> sheet \<times> document \<Rightarrow> sheet \<times> document" where
  "updateDragPosition L deltaY sd =
     (case sd of (s, d) \<Rightarrow>
        let adjustedY = calculateResistantPosition s deltaY;
            s1 = s\<lparr>transform := Some (Finite adjustedY)\<rparr>;
            ratio = 1 - (if sheetHeight (gesture s1) \<noteq> 0
                         then adjustedY / sheetHeight (gesture s1) else 0);
            s2 = updateBackdropOpacity (clamp (Finite ratio) (Finite 0) (Finite 1)) s1
        in snd (triggerEvent L SLIDE
                  (Some \<lparr>d_velocity = velocity (gesture s2), d_adjustedY = adjustedY,
                          d_deltaY = deltaY, d_ratio = ratio\<rparr>)
                  (s2, d)))"

text \<open>
  \<open>animateToPosition\<close> reads the current offset of the panel and the clock, cancels a
  waiting frame and asks for a new one.
\<close>

definition animateToPosition :: "real \<Rightarrow> on_complete \<Rightarrow> real \<Rightarrow> real \<Rightarrow> sheet \<Rightarrow> sheet" where
  "animateToPosition targetY onComplete translateY now s =
     (let fromY = translateY;
          distance = targetY - fromY;
          duration = num (cfg s ''animationDuration'');
          fromTime = now
      in (cancelAnimations s)
           \<lparr>animationFrame := True,
            frameCallback := Some (Animate fromY distance duration fromTime onComplete)\<rparr>)"

text \<open>
  The decision at the end of a drag. The products, the sum and the comparisons are those
  of the reals: where the two sides of a comparison differ by less than the rounding of
  the doubles, the code can decide the other way.
\<close>

definition handleDragEnd :: "real \<Rightarrow> real \<Rightarrow> sheet \<Rightarrow> sheet" where
  "handleDragEnd translateY now s =
     (let deltaY = currentY (gesture s) - startY (gesture s);
          v = (if velocity (gesture s) \<noteq> 0 then velocity (gesture s) else 0);
          projectedDelta = deltaY + v * num (cfg s ''projectionTime'')
      in if deltaY < 0 then animateToPosition 0 NoCallback translateY now s
         else let threshold = max (num (cfg s ''swipeThreshold''))
                                  (sheetHeight (gesture s) * num (cfg s ''closeThresholdRatio''));
                  shouldClose =
                    (projectedDelta > threshold \<or>
                     (\<bar>v\<bar> > num (cfg s ''velocityThreshold'') \<and>
                      deltaY > num (cfg s ''minCloseDistance'')))
              in if shouldClose
                 then animateToPosition (sheetHeight (gesture s)) CallHide translateY now s
                 else animateToPosition 0 NoCallback translateY now s)"

definition onPointerUp :: "real \<Rightarrow> real \<Rightarrow> sheet \<Rightarrow> sheet" where
  "onPointerUp translateY now s =
     (if \<not> isDragging s then s
      else let s1 = s\<lparr>isDragging := False\<rparr>;
               s2 = s1\<lparr>classList := classList s1 - {CLS_DRAGGING}\<rparr>;
               s3 = setBackdropTransition
                      (TransitionOpacity (num (cfg s2 ''animationDuration''))) s2
           in handleDragEnd translateY now s3)"

text \<open>
  One step of the settle animation, run by the host at time \<open>currentTime\<close>. The
  start offset, the distance, the duration and the start time are those that
  \<open>animateToPosition\<close> computed; the quotient by the duration need not be finite.
\<close>

definition animate ::
  "listeners \<Rightarrow> real \<Rightarrow> real \<Rightarrow> real \<Rightarrow> real \<Rightarrow> real \<Rightarrow> on_complete
     \<Rightarrow> sheet \<times> document \<Rightarrow> sheet \<times> document" where
  "animate L currentTime fromY distance duration fromTime onComplete sd =
     (case sd of (s, d) \<Rightarrow>
        let elapsed = currentTime - fromTime;
            progress = Math_min (num_div (Finite elapsed) (Finite duration)) (Finite 1);
            eased = num_sub (Finite 1) (Math_pow (num_sub (Finite 1) progress) 3);
            curY = num_add (Finite fromY) (num_mul (Finite distance) eased);
            s1 = s\<lparr>transform := Some curY\<rparr>;
            ratio = num_sub (Finite 1)
                      (if sheetHeight (gesture s1) \<noteq> 0
                       then num_div curY (Finite (sheetHeight (gesture s1))) else Finite 0);
            s2 = updateBackdropOpacity ratio s1
        in if num_less progress (Finite 1)
           then (s2\<lparr>animationFrame := True,
                    frameCallback :=
                      Some (Animate fromY distance duration fromTime onComplete)\<rparr>, d)
           else (case onComplete of
                   CallHide \<Rightarrow> hide_sheet L (s2\<lparr>animationFrame := False\<rparr>, d)
                 | NoCallback \<Rightarrow> (s2\<lparr>animationFrame := False\<rparr>, d)))"

section \<open>What the host does to an instance\<close>

text \<open>
  The host runs the frame callback that waits, signals the end of a transition, and
  delivers pointer, key and click events to the handlers that are attached.
\<close>

definition frame :: "listeners \<Rightarrow> real \<Rightarrow> sheet \<times> document \<Rightarrow> sheet \<times> document" where
  "frame L currentTime sd =
     (case sd of (s, d) \<Rightarrow>
        (case frameCallback s of
           None \<Rightarrow> sd
         | Some PositionUpdate \<Rightarrow>
             updateDragPosition L (currentY (gesture s) - startY (gesture s))
               (s\<lparr>frameCallback := None\<rparr>, d)
         | Some (Animate fromY distance duration fromTime onComplete) \<Rightarrow>
             animate L currentTime fromY distance duration fromTime onComplete
               (s\<lparr>frameCallback := None\<rparr>, d)))"

definition transitionEnd :: "listeners \<Rightarrow> sheet \<times> document \<Rightarrow> sheet \<times> document" where
  "transitionEnd L sd =
     (case (if openTimeout (fst sd) = Some Pending
            then finalizeShow L ((fst sd)\<lparr>openTimeout := Some Settled\<rparr>, snd sd)
            else sd) of
        (s1, d1) \<Rightarrow>
          if closeTimeout s1 = Some Pending
          then finalizeHide L (s1\<lparr>closeTimeout := Some Settled\<rparr>, d1)
          else (s1, d1))"

definition dispose_sheet :: "sheet \<times> document \<Rightarrow> sheet \<times> document" where
  "dispose_sheet sd =
     (case element (fst sd) of
        None \<Rightarrow> sd
      | Some el \<Rightarrow>
          (case cleanup sd of
             (s1, d1) \<Rightarrow>
               (s1\<lparr>element := None, config := Map.empty\<rparr>,
                d1\<lparr>INSTANCES := (INSTANCES d1)(el := None)\<rparr>)))"

datatype action =
    Show
  | Hide
  | Toggle
  | Dispose
  | TransitionEnd
  | Frame real
  | PointerDown real real real
  | PointerMove real real
  | PointerUp real real
  | EscapeKey
  | BackdropClick
  | DismissClick
  | UserFocus node

fun step :: "listeners \<Rightarrow> action \<Rightarrow> sheet \<times> document \<Rightarrow> sheet \<times> document" where
  "step L Show sd = show_sheet L sd"
| "step L Hide sd = hide_sheet L sd"
| "step L Toggle sd = toggle_sheet L sd"
| "step L Dispose sd = dispose_sheet sd"
| "step L TransitionEnd sd = transitionEnd L sd"
| "step L (Frame currentTime) sd = frame L currentTime sd"
| "step L (PointerDown clientY now translateY) sd =
     (if h_pointerDown (fst sd) then (onPointerDown clientY now translateY (fst sd), snd sd)
      else sd)"
| "step L (PointerMove clientY now) sd =
     (if h_pointerMove (fst sd) then (onPointerMove clientY now (fst sd), snd sd) else sd)"
| "step L (PointerUp translateY now) sd =
     (if h_pointerUp (fst sd) then (onPointerUp translateY now (fst sd), snd sd) else sd)"
| "step L EscapeKey sd =
     (if h_escape (fst sd)
      then (if cfg (fst sd) ''backdrop'' = JStr ''static'' then (shakeSheet (fst sd), snd sd)
            else hide_sheet L sd)
      else sd)"
| "step L BackdropClick sd =
     (case backdrop (fst sd) of
        None \<Rightarrow> sd
      | Some bd \<Rightarrow> if bd_clickHides bd then hide_sheet L sd else sd)"
| "step L DismissClick sd = (if h_dismiss (fst sd) then hide_sheet L sd else sd)"
| "step L (UserFocus n) sd = (fst sd, (snd sd)\<lparr>activeElement := Some n\<rparr>)"

definition run :: "listeners \<Rightarrow> action list \<Rightarrow> sheet \<times> document \<Rightarrow> sheet \<times> document" where
  "run L acts sd = fold (step L) acts sd"

section \<open>Construction and the registry\<close>

text \<open>
  Instances are objects with an identity: the page keeps them in a store, under the
  reference that the registry hands out. The first argument of the constructor is an
  element, a selector string, or something else.
\<close>

datatype element_arg = ElementRef node | SelectorString string | OtherArgument

record page =
  doc :: document
  heap :: "nat \<rightharpoonup> sheet"
  nextRef :: nat

definition resolveElement :: "document \<Rightarrow> element_arg \<Rightarrow> node option" where
  "resolveElement d elementOrSelector =
     (case elementOrSelector of
        ElementRef n \<Rightarrow> Some n
      | SelectorString sel \<Rightarrow> if sel = [] then None else querySelector d sel
      | OtherArgument \<Rightarrow> None)"

definition setupAccessibility :: "node \<Rightarrow> document \<Rightarrow> document" where
  "setupAccessibility el d =
     d\<lparr>attributes := (attributes d)
          (el := (attributes d el)
                   (''role'' \<mapsto> ''dialog'', ''aria-modal'' \<mapsto> ''true'', ''tabindex'' \<mapsto> ''-1''))\<rparr>"

text \<open>
  The constructor returns the reference of the instance (the existing one, or the new
  one) and the page, or the error it throws.
\<close>

definition constructor :: "element_arg \<Rightarrow> js_object \<Rightarrow> page \<Rightarrow> error + (nat \<times> page)" where
  "constructor elementArg configArg pg =
     (case resolveElement (doc pg) elementArg of
        None \<Rightarrow> Inl (Error (NAME @ '': element not found''))
      | Some resolvedElement \<Rightarrow>
          (case INSTANCES (doc pg) resolvedElement of
             Some existing \<Rightarrow> Inr (existing, pg)
           | None \<Rightarrow>
               let dataConfig = dataAttributes (doc pg) resolvedElement;
                   merged = Default ++ dataConfig ++ configArg
               in (case validateConfigTypes NAME merged DefaultType of
                     Some err \<Rightarrow> Inl err
                   | None \<Rightarrow>
                       let r = nextRef pg;
                           d1 = setupAccessibility resolvedElement (doc pg);
                           d2 = d1\<lparr>INSTANCES := (INSTANCES d1)(resolvedElement \<mapsto> r)\<rparr>
                       in Inr (r, pg\<lparr>doc := d2,
                                     heap := (heap pg)(r \<mapsto> newSheet resolvedElement merged),
                                     nextRef := Suc r\<rparr>))))"

definition getInstance :: "element_arg \<Rightarrow> page \<Rightarrow> nat option" where
  "getInstance elementArg pg =
     (case resolveElement (doc pg) elementArg of
        None \<Rightarrow> None
      | Some resolvedElement \<Rightarrow> INSTANCES (doc pg) resolvedElement)"

definition getOrCreateInstance ::
  "element_arg \<Rightarrow> js_object \<Rightarrow> page \<Rightarrow> error + (nat \<times> page)" where
  "getOrCreateInstance elementArg configArg pg =
     (case getInstance elementArg pg of
        Some existing \<Rightarrow> Inr (existing, pg)
      | None \<Rightarrow> constructor elementArg configArg pg)"

text \<open>An operation of the instance behind a reference, applied in the page.\<close>

definition onInstance ::
  "(sheet \<times> document \<Rightarrow> sheet \<times> document) \<Rightarrow> nat \<Rightarrow> page \<Rightarrow> page" where
  "onInstance f r pg =
     (case heap pg r of
        None \<Rightarrow> pg
      | Some s \<Rightarrow>
          (case f (s, doc pg) of
             (s', d') \<Rightarrow> pg\<lparr>doc := d', heap := (heap pg)(r \<mapsto> s')\<rparr>))"

section \<open>An example page\<close>

text \<open>
  A page used to run the definitions on concrete inputs: element 1 is the panel,
  elements 2 and 3 are a button and an input outside it; the button has the focus, the
  panel is 400 pixels high and has a drag handle, and nothing overflows.
\<close>

definition exampleDocument :: document where
  "exampleDocument =
     \<lparr>bodyChildren = [1, 2, 3], inert = (\<lambda>n. False), ariaHidden = (\<lambda>n. None),
      paddingRight = CssEmpty, overflow = CssEmpty, activeElement = Some 2,
      dispatched = [], focusCalls = [], nextNode = 4, INSTANCES = Map.empty,
      SUPPORTS_INERT = True, isOverflowing = False, scrollbarWidth = 0,
      offsetHeight = (\<lambda>n. 400), boundingHeight = (\<lambda>n. 400),
      hasFocusMethod = (\<lambda>n. True), focusableIn = (\<lambda>n. []),
      hasDragHandle = (\<lambda>n. True), querySelector = (\<lambda>sel. None),
      dataAttributes = (\<lambda>n. Map.empty), attributes = (\<lambda>n. Map.empty)\<rparr>"

definition examplePage :: page where
  "examplePage = \<lparr>doc = exampleDocument, heap = Map.empty, nextRef = 0\<rparr>"

text \<open>Listeners that never cancel, and listeners that cancel whatever they can.\<close>

definition noCancel :: listeners where
  "noCancel = (\<lambda>e. False)"

definition cancelAll :: listeners where
  "cancelAll = (\<lambda>e. True)"

text \<open>Listeners that cancel exactly the notifications \<open>shown\<close>, \<open>hidden\<close> and \<open>slide\<close>.\<close>

definition cancelTerminal :: listeners where
  "cancelTerminal = (\<lambda>e. ev_name e = SHOWN \<or> ev_name e = HIDDEN \<or> ev_name e = SLIDE)"


definition dragUpExample :: "sheet \<times> document" where
  "dragUpExample =
     run noCancel [Show, TransitionEnd, PointerDown 100 0 0, PointerMove 0 16]
       (newSheet 1 Default, exampleDocument)"

text \<open>
  Pages with instances: one constructed over the panel with no options, one constructed
  with \<open>{ focus: false }\<close>, and one with two panels (elements 1 and 3), each with an
  instance. In \<open>styledDocument\<close> the author of the page has given \<open>body\<close> an inline
  right padding of 10 pixels and \<open>overflow: scroll\<close>.
\<close>

definition pageAfter :: "error + (nat \<times> page) \<Rightarrow> page" where
  "pageAfter result = (case result of Inl err \<Rightarrow> examplePage | Inr (r, pg) \<Rightarrow> pg)"

definition constructedPage :: page where
  "constructedPage = pageAfter (constructor (ElementRef 1) Map.empty examplePage)"

definition focusOffPage :: page where
  "focusOffPage = pageAfter (constructor (ElementRef 1) [''focus'' \<mapsto> JBool False] examplePage)"

definition twoSheetsPage :: page where
  "twoSheetsPage = pageAfter (constructor (ElementRef 3) Map.empty constructedPage)"

definition styledDocument :: document where
  "styledDocument = exampleDocument\<lparr>paddingRight := CssPx 10, overflow := CssText ''scroll''\<rparr>"



text \<open>
  Listeners that cancel the \<open>hide\<close> notification and no other, and a drag like
  \<open>dragDownExample\<close> that begins while the panel is still in its show transition.
\<close>

definition cancelHide :: listeners where
  "cancelHide = (\<lambda>e. ev_name e = HIDE)"


text \<open>
  The drag towards opening on a panel whose option \<open>animationDuration\<close> is \<open>0\<close>,
  and the drag towards closing on a panel whose option is \<open>- 100\<close>; the constructor
  accepts both values.
\<close>

definition zeroDurationExample :: "sheet \<times> document" where
  "zeroDurationExample =
     run noCancel [Show, TransitionEnd, PointerDown 100 0 0, PointerMove 0 16]
       (newSheet 1 (Default(''animationDuration'' \<mapsto> JNum 0)), exampleDocument)"

definition negativeDurationExample :: "sheet \<times> document" where
  "negativeDurationExample =
     run noCancel [Show, TransitionEnd, PointerDown 100 0 0, PointerMove 200 16]
       (newSheet 1 (Default(''animationDuration'' \<mapsto> JNum (- 100))), exampleDocument)"



section \<open>Properties\<close>

lemma getValueType_cases:
  "getValueType JUndefined = ''undefined''"
  "getValueType JNull = ''null''"
  "getValueType (JBool b) = ''boolean''"
  "getValueType (JNum r) = ''number''"
  "getValueType (JStr s) = ''string''"
  "getValueType JArray = ''array''"
  "getValueType JObject = ''object''"
  "getValueType JFunction = ''function''"
  by (simp_all add: getValueType_def toLowerCase_def slice_8_m1_def objectToString_def
      lowerChar_def)

lemma Default_values:
  "getProp Default ''backdrop'' = JBool True"
  "getProp Default ''keyboard'' = JBool True"
  "getProp Default ''focus'' = JBool True"
  "getProp Default ''gestures'' = JBool True"
  "getProp Default ''swipeThreshold'' = JNum 50"
  "getProp Default ''velocityThreshold'' = JNum (1 / 2)"
  "getProp Default ''minCloseDistance'' = JNum 50"
  "getProp Default ''closeThresholdRatio'' = JNum (3 / 10)"
  "getProp Default ''animationDuration'' = JNum 300"
  "getProp Default ''projectionTime'' = JNum 200"
  "getProp Default ''dragResistanceUp'' = JNum (3 / 4)"
  "getProp Default ''dragResistanceDown'' = JNum (1 / 100)"
  by (simp_all add: getProp_def Default_def)

lemma getProp_upd: "getProp (m(k \<mapsto> v)) k' = (if k' = k then v else getProp m k')"
  by (simp add: getProp_def)

lemmas eval_defs =
  run_def show_sheet_def hide_sheet_def toggle_sheet_def triggerEvent_def dispatchEvent_def
  prepareShow_def executeShow_def finalizeShow_def prepareHide_def executeHide_def
  finalizeHide_def showBackdrop_def createBackdrop_def removeBackdrop_def
  updateBackdropOpacity_def setBackdropTransition_def clamp_def applyInert_def
  applyInertNode_def removeInert_def restoreNode_def adjustBodyPadding_def
  resetBodyPadding_def attachEventHandlers_def attachGestureHandlers_def
  detachEventHandlers_def detachGestureHandlers_def startFocusManagement_def
  stopFocusManagement_def updateFocusableElements_def trapFocus_def restoreFocus_def
  focusOn_def transitionEnd_def cancelAnimations_def abortDrag_def cleanup_def
  dispose_sheet_def cfg_def
  onPointerDown_def onPointerMove_def onPointerUp_def schedulePositionUpdate_def
  frame_def updateDragPosition_def calculateResistantPosition_def handleDragEnd_def
  animateToPosition_def animate_def
  newSheet_def initialGesture_def exampleDocument_def examplePage_def
  noCancel_def cancelAll_def cancelTerminal_def cancelHide_def Default_values Let_def
  Math_min_def Math_max_def num_sub_def infinityOf_def

subsection \<open>The example runs\<close>




subsection \<open>The resistance curve\<close>









subsection \<open>The ratio of a slide notification\<close>


lemma slide_ratio_upward:
  assumes h: "0 < sheetHeight (gesture s)"
    and r: "cfg s ''dragResistanceUp'' = JNum r" "0 \<le> r"
    and up: "deltaY < 0"
    and rest: "startTranslateY (gesture s) = 0"
  shows "\<exists>det. ev_detail (last (dispatched (snd (updateDragPosition L deltaY (s, d)))))
                  = Some det \<and> 1 < d_ratio det"
proof -
  define scale where "scale = sheetHeight (gesture s) * 0.25"
  have sc: "0 < scale" using h by (simp add: scale_def)
  have den: "0 < scale + r * \<bar>deltaY\<bar>"
    using sc r(2) by (simp add: add_pos_nonneg)
  have adj: "calculateResistantPosition s deltaY = (deltaY * scale) / (scale + r * \<bar>deltaY\<bar>)"
    using up r(1) rest by (simp add: calculateResistantPosition_def scale_def Let_def)
  have "deltaY * scale < 0" using up sc by (simp add: mult_neg_pos)
  then have neg: "calculateResistantPosition s deltaY < 0"
    unfolding adj using den by (simp add: divide_neg_pos)
  then have "calculateResistantPosition s deltaY / sheetHeight (gesture s) < 0"
    using h by (simp add: divide_neg_pos)
  then show ?thesis
    using h
    by (simp add: updateDragPosition_def triggerEvent_def dispatchEvent_def Let_def)
qed

text \<open>
  Claim C3 says that every \<open>slide\<close> notification carries a ratio in \<open>[0, 1]\<close>, and
  the test \<^verbatim>\<open>slide event ratio should be between 0 and 1\<close> of the repository asserts
  it on a downward drag. \<open>updateDragPosition\<close> clamps the ratio for the backdrop and
  then puts the ratio as computed into the notification. On the example panel, shown and
  at rest, an upward drag of 100 pixels gives the adjusted offset \<open>- 400 / 7\<close>: the
  notification of the next frame carries the ratio \<open>8 / 7\<close>, while the backdrop gets
  the opacity \<open>1\<close>.
\<close>

theorem slide_ratio_above_one:
  "last (dispatched (snd (frame noCancel 32 dragUpExample))) =
     \<lparr>ev_name = SLIDE,
      ev_detail = Some \<lparr>d_velocity = - (25 / 4), d_adjustedY = - (400 / 7),
                         d_deltaY = - 100, d_ratio = 8 / 7\<rparr>,
      bubbles = True, cancelable = True, defaultPrevented = False\<rparr>
   \<and> map_option bd_opacity (backdrop (fst (frame noCancel 32 dragUpExample)))
       = Some (Finite 1)
   \<and> transform (fst (frame noCancel 32 dragUpExample)) = Some (Finite (- (400 / 7)))"
  by (simp add: dragUpExample_def eval_defs)

subsection \<open>Which notifications can be cancelled\<close>

text \<open>
  Claim C5 says that \<open>shown\<close>, \<open>hidden\<close> and \<open>slide\<close> are dispatched as events that
  cannot be cancelled. \<open>triggerEvent\<close> creates every event with \<open>cancelable: true\<close>:
  in a run of the example panel with listeners that call \<open>preventDefault()\<close> on these
  three notifications, each of them is cancelable and ends with \<open>defaultPrevented\<close> set.
\<close>

theorem terminal_notifications_counterexample:
  "map (\<lambda>e. (ev_name e, cancelable e, defaultPrevented e))
     (dispatched (snd (run cancelTerminal
        [Show, TransitionEnd, PointerDown 100 0 0, PointerMove 200 16, Frame 32,
         Hide, TransitionEnd]
        (newSheet 1 Default, exampleDocument))))
   = [(SHOW, True, False), (SHOWN, True, True), (SLIDE, True, True),
      (HIDE, True, False), (HIDDEN, True, True)]"
  by (simp add: eval_defs)

lemma snd_triggerEvent:
  "snd (triggerEvent L name det (s, d))
     = (s, d\<lparr>dispatched := dispatched d @
          [\<lparr>ev_name = name, ev_detail = det, bubbles = True, cancelable = True,
            defaultPrevented =
              L \<lparr>ev_name = name, ev_detail = det, bubbles = True, cancelable = True,
                 defaultPrevented = False\<rparr>\<rparr>]\<rparr>)"
  by (simp add: triggerEvent_def dispatchEvent_def Let_def)

text \<open>
  Claim C5, amended. All five notifications are dispatched as bubbling events with the
  cancelable flag set. The component acts on a cancellation of \<open>show\<close> and \<open>hide\<close>
  only: whether a listener cancels \<open>shown\<close>, \<open>hidden\<close> or \<open>slide\<close> makes no
  difference to the instance, nor to the document apart from the logged events.
\<close>

theorem notifications_all_cancelable:
  "(case triggerEvent L name det (s, d) of
      (e, s', d') \<Rightarrow>
        ev_name e = name \<and> bubbles e \<and> cancelable e \<and> dispatched d' = dispatched d @ [e])
   \<and> fst (finalizeShow L (s, d)) = fst (finalizeShow L' (s, d))
   \<and> (snd (finalizeShow L (s, d)))\<lparr>dispatched := []\<rparr>
       = (snd (finalizeShow L' (s, d)))\<lparr>dispatched := []\<rparr>
   \<and> fst (finalizeHide L (s, d)) = fst (finalizeHide L' (s, d))
   \<and> (snd (finalizeHide L (s, d)))\<lparr>dispatched := []\<rparr>
       = (snd (finalizeHide L' (s, d)))\<lparr>dispatched := []\<rparr>
   \<and> fst (updateDragPosition L deltaY (s, d)) = fst (updateDragPosition L' deltaY (s, d))
   \<and> (snd (updateDragPosition L deltaY (s, d)))\<lparr>dispatched := []\<rparr>
       = (snd (updateDragPosition L' deltaY (s, d)))\<lparr>dispatched := []\<rparr>"
proof -
  have a: "(case triggerEvent L name det (s, d) of
      (e, s', d') \<Rightarrow>
        ev_name e = name \<and> bubbles e \<and> cancelable e \<and> dispatched d' = dispatched d @ [e])"
    by (simp add: triggerEvent_def dispatchEvent_def Let_def)
  have b: "fst (finalizeShow L (s, d)) = fst (finalizeShow L' (s, d))
     \<and> (snd (finalizeShow L (s, d)))\<lparr>dispatched := []\<rparr>
       = (snd (finalizeShow L' (s, d)))\<lparr>dispatched := []\<rparr>"
    by (cases "trapFocus (s\<lparr>classList := classList s - {CLS_SHOWING}, isTransitioning := False\<rparr>, d)")
       (simp add: finalizeShow_def snd_triggerEvent Let_def)
  have c: "fst (finalizeHide L (s, d)) = fst (finalizeHide L' (s, d))
     \<and> (snd (finalizeHide L (s, d)))\<lparr>dispatched := []\<rparr>
       = (snd (finalizeHide L' (s, d)))\<lparr>dispatched := []\<rparr>"
    by (simp add: finalizeHide_def snd_triggerEvent removeBackdrop_def restoreFocus_def
        Let_def split: option.split prod.split)
  have e: "fst (updateDragPosition L deltaY (s, d)) = fst (updateDragPosition L' deltaY (s, d))
     \<and> (snd (updateDragPosition L deltaY (s, d)))\<lparr>dispatched := []\<rparr>
       = (snd (updateDragPosition L' deltaY (s, d)))\<lparr>dispatched := []\<rparr>"
    by (simp add: updateDragPosition_def snd_triggerEvent Let_def)
  from a b c e show ?thesis by blast
qed

subsection \<open>Calls that are refused\<close>

text \<open>
  Claim C6. A call of \<open>show()\<close> while the panel is shown or in a transition, and a call
  of \<open>hide()\<close> while the panel is not shown or in a transition, changes nothing: the
  instance and the document, with the log of dispatched events, are the same afterwards.
\<close>

theorem show_hide_refused:
  "(isShown s \<or> isTransitioning s \<longrightarrow> show_sheet L (s, d) = (s, d))
   \<and> (\<not> isShown s \<or> isTransitioning s \<longrightarrow> hide_sheet L (s, d) = (s, d))"
  by (simp add: show_sheet_def hide_sheet_def)

theorem show_hide_refused_witness:
  "show_sheet noCancel (run noCancel [Show] (newSheet 1 Default, exampleDocument))
     = run noCancel [Show] (newSheet 1 Default, exampleDocument)
   \<and> hide_sheet noCancel (run noCancel [Show] (newSheet 1 Default, exampleDocument))
     = run noCancel [Show] (newSheet 1 Default, exampleDocument)
   \<and> hide_sheet noCancel (newSheet 1 Default, exampleDocument)
     = (newSheet 1 Default, exampleDocument)"
proof -
  obtain s d where sd: "run noCancel [Show] (newSheet 1 Default, exampleDocument) = (s, d)"
    by (cases "run noCancel [Show] (newSheet 1 Default, exampleDocument)")
  have "isShown (fst (run noCancel [Show] (newSheet 1 Default, exampleDocument)))
        \<and> isTransitioning (fst (run noCancel [Show] (newSheet 1 Default, exampleDocument)))"
    by (simp add: eval_defs)
  with sd have flags: "isShown s" "isTransitioning s" by simp_all
  have hidden: "\<not> isShown (newSheet 1 Default)" by (simp add: newSheet_def)
  from show_hide_refused [of s noCancel d]
       show_hide_refused [of "newSheet 1 Default" noCancel exampleDocument]
  show ?thesis using sd flags hidden by simp
qed

subsection \<open>A cancelled show\<close>

text \<open>
  Claim C7. When a listener cancels the \<open>show\<close> notification of a hidden panel at rest,
  \<open>show()\<close> returns with the instance as it was (not shown, not in a transition, the
  same classes, no backdrop) and the document as it was, but for the one \<open>show\<close> event
  in the log.
\<close>

theorem show_cancelled:
  assumes "element s \<noteq> None" and "\<not> isShown s" and "\<not> isTransitioning s"
    and "L \<lparr>ev_name = SHOW, ev_detail = None, bubbles = True, cancelable = True,
            defaultPrevented = False\<rparr>"
  shows "show_sheet L (s, d) =
           (s, d\<lparr>dispatched := dispatched d @
                  [\<lparr>ev_name = SHOW, ev_detail = None, bubbles = True, cancelable = True,
                    defaultPrevented = True\<rparr>]\<rparr>)"
  using assms by (auto simp add: show_sheet_def triggerEvent_def dispatchEvent_def Let_def)

theorem show_cancelled_witness:
  "show_sheet cancelAll (newSheet 1 Default, exampleDocument) =
     (newSheet 1 Default,
      exampleDocument\<lparr>dispatched :=
        [\<lparr>ev_name = SHOW, ev_detail = None, bubbles = True, cancelable = True,
          defaultPrevented = True\<rparr>]\<rparr>)
   \<and> \<not> isShown (fst (show_sheet cancelAll (newSheet 1 Default, exampleDocument)))
   \<and> \<not> isTransitioning (fst (show_sheet cancelAll (newSheet 1 Default, exampleDocument)))
   \<and> classList (fst (show_sheet cancelAll (newSheet 1 Default, exampleDocument))) = {}
   \<and> backdrop (fst (show_sheet cancelAll (newSheet 1 Default, exampleDocument))) = None
   \<and> bodyChildren (snd (show_sheet cancelAll (newSheet 1 Default, exampleDocument)))
       = [1, 2, 3]"
proof -
  have e: "element (newSheet 1 Default) \<noteq> None" by (simp add: newSheet_def)
  have h: "\<not> isShown (newSheet 1 Default)" by (simp add: newSheet_def)
  have t: "\<not> isTransitioning (newSheet 1 Default)" by (simp add: newSheet_def)
  have c: "cancelAll \<lparr>ev_name = SHOW, ev_detail = None, bubbles = True, cancelable = True,
            defaultPrevented = False\<rparr>" by (simp add: cancelAll_def)
  have eq: "show_sheet cancelAll (newSheet 1 Default, exampleDocument) =
     (newSheet 1 Default,
      exampleDocument\<lparr>dispatched :=
        [\<lparr>ev_name = SHOW, ev_detail = None, bubbles = True, cancelable = True,
          defaultPrevented = True\<rparr>]\<rparr>)"
    using show_cancelled [of "newSheet 1 Default" cancelAll exampleDocument, OF e h t c]
    by (simp add: exampleDocument_def)
  show ?thesis
    unfolding eq by (simp add: newSheet_def exampleDocument_def)
qed

subsection \<open>The drag coordinates of a reachable instance\<close>


lemma gesture_updateBackdropOpacity: "gesture (updateBackdropOpacity r s) = gesture s"
  by (simp add: updateBackdropOpacity_def split: option.split)






































subsection \<open>The callback that a pointer release schedules\<close>






subsection \<open>A drag goes on only while the panel is shown\<close>

lemma ready_updateBackdropOpacity:
  "isShown (updateBackdropOpacity r s) = isShown s"
  "isTransitioning (updateBackdropOpacity r s) = isTransitioning s"
  "isDragging (updateBackdropOpacity r s) = isDragging s"
  "h_pointerDown (updateBackdropOpacity r s) = h_pointerDown s"
  "element (updateBackdropOpacity r s) = element s"
  "config (updateBackdropOpacity r s) = config s"
  by (simp_all add: updateBackdropOpacity_def split: option.split)












































subsection \<open>The frames of the settle animation\<close>

lemma progress_cases:
  "duration \<noteq> 0 \<Longrightarrow>
     Math_min (num_div (Finite e) (Finite duration)) (Finite 1) = Finite (min (e / duration) 1)"
  "0 < e \<Longrightarrow> Math_min (num_div (Finite e) (Finite 0)) (Finite 1) = Finite 1"
  "Math_min (num_div (Finite 0) (Finite 0)) (Finite 1) = NaN"
  "e < 0 \<Longrightarrow> Math_min (num_div (Finite e) (Finite 0)) (Finite 1) = NegInfinity"
  by (auto simp add: Math_min_def infinityOf_def min_def)

lemma frame_animate_continue:
  assumes cb: "frameCallback s = Some (Animate fromY distance duration fromTime oc)"
    and nc: "\<not> (if duration = 0 then fromTime \<le> t else 1 \<le> (t - fromTime) / duration)"
  shows "frameCallback (fst (frame L t (s, d)))
           = Some (Animate fromY distance duration fromTime oc)
         \<and> isShown (fst (frame L t (s, d))) = isShown s
         \<and> snd (frame L t (s, d)) = d"
proof -
  define q where
    "q = Math_min (num_div (Finite (t - fromTime)) (Finite duration)) (Finite 1)"
  have l: "num_less q (Finite 1)"
  proof (cases "duration = 0")
    case True
    with nc have neg: "t - fromTime < 0" by simp
    have "q = NegInfinity"
      unfolding q_def True by (rule progress_cases(4) [OF neg])
    then show ?thesis by simp
  next
    case False
    with nc have lt: "(t - fromTime) / duration < 1" by simp
    have "q = Finite (min ((t - fromTime) / duration) 1)"
      unfolding q_def by (rule progress_cases(1) [OF False])
    then show ?thesis using lt by simp
  qed
  have f: "frame L t (s, d) =
      animate L t fromY distance duration fromTime oc (s\<lparr>frameCallback := None\<rparr>, d)"
    by (simp add: frame_def cb)
  show ?thesis
    unfolding f animate_def Let_def q_def [symmetric]
    using l by (simp add: ready_updateBackdropOpacity)
qed


text \<open>
  A frame that does not complete the animation leaves no trace in what a later frame
  does: the offset, the opacity of the backdrop and the frame fields are written anew by
  every frame. What is said below of the frame that follows a pointer release therefore
  holds as well after any number of frames that did not complete the animation.
\<close>

lemma frame_after_earlier_frame:
  assumes cb: "frameCallback s = Some (Animate fromY distance duration fromTime oc)"
    and nc: "\<not> (if duration = 0 then fromTime \<le> t1 else 1 \<le> (t1 - fromTime) / duration)"
  shows "frame L t (frame L t1 (s, d)) = frame L t (s, d)"
proof -
  define q where
    "q = Math_min (num_div (Finite (t1 - fromTime)) (Finite duration)) (Finite 1)"
  have l: "num_less q (Finite 1)"
  proof (cases "duration = 0")
    case True
    with nc have neg: "t1 - fromTime < 0" by simp
    have "q = NegInfinity"
      unfolding q_def True by (rule progress_cases(4) [OF neg])
    then show ?thesis by simp
  next
    case False
    with nc have lt: "(t1 - fromTime) / duration < 1" by simp
    have "q = Finite (min ((t1 - fromTime) / duration) 1)"
      unfolding q_def by (rule progress_cases(1) [OF False])
    then show ?thesis using lt by simp
  qed
  have f1: "frame L t1 (s, d) =
      animate L t1 fromY distance duration fromTime oc (s\<lparr>frameCallback := None\<rparr>, d)"
    by (simp add: frame_def cb)
  obtain r1 y1 where s1: "frame L t1 (s, d) =
      ((updateBackdropOpacity r1 (s\<lparr>frameCallback := None, transform := Some y1\<rparr>))
         \<lparr>animationFrame := True,
          frameCallback := Some (Animate fromY distance duration fromTime oc)\<rparr>, d)"
    unfolding f1 animate_def Let_def q_def [symmetric]
    using l by simp
  have u: "updateBackdropOpacity r2
             ((updateBackdropOpacity r1 (s\<lparr>frameCallback := None, transform := Some y1\<rparr>))
                \<lparr>animationFrame := True, frameCallback := None, transform := y2\<rparr>)
           = updateBackdropOpacity r2 (s\<lparr>frameCallback := None, transform := y2\<rparr>)
               \<lparr>animationFrame := True\<rparr>" for r2 y2
    by (simp add: updateBackdropOpacity_def cfg_def split: option.split)
  have g: "gesture (updateBackdropOpacity r1 (s\<lparr>frameCallback := None, transform := Some y1\<rparr>))
             = gesture s"
    by (simp add: gesture_updateBackdropOpacity)
  show ?thesis
    unfolding s1
    by (simp add: frame_def cb animate_def Let_def u g gesture_updateBackdropOpacity
        split: on_complete.split)
qed

lemma frames_before_completion:
  assumes cb: "frameCallback s = Some (Animate fromY distance duration fromTime oc)"
    and nc: "\<forall>t1 \<in> set ts.
               \<not> (if duration = 0 then fromTime \<le> t1 else 1 \<le> (t1 - fromTime) / duration)"
  shows "frame L t (run L (map Frame ts) (s, d)) = frame L t (s, d)"
  using cb nc
proof (induction ts arbitrary: s)
  case Nil
  then show ?case by (simp add: run_def)
next
  case (Cons t1 ts)
  from Cons.prems(2)
  have n1: "\<not> (if duration = 0 then fromTime \<le> t1 else 1 \<le> (t1 - fromTime) / duration)"
    and rest: "\<forall>t1 \<in> set ts.
               \<not> (if duration = 0 then fromTime \<le> t1 else 1 \<le> (t1 - fromTime) / duration)"
    by simp_all
  obtain s1 d1 where s1: "frame L t1 (s, d) = (s1, d1)"
    by (cases "frame L t1 (s, d)")
  from frame_animate_continue [OF Cons.prems(1) n1, of L d] s1
  have cb1: "frameCallback s1 = Some (Animate fromY distance duration fromTime oc)"
    and d1: "d1 = d"
    by simp_all
  have "frame L t (run L (map Frame (t1 # ts)) (s, d))
          = frame L t (run L (map Frame ts) (s1, d))"
    by (simp add: run_def s1 d1)
  also have "\<dots> = frame L t (s1, d)"
    by (rule Cons.IH [OF cb1 rest])
  also have "\<dots> = frame L t (frame L t1 (s, d))"
    by (simp add: s1 d1)
  also have "\<dots> = frame L t (s, d)"
    by (rule frame_after_earlier_frame [OF Cons.prems(1) n1])
  finally show ?case .
qed


subsection \<open>A call of hide() that goes ahead, and one that is cancelled\<close>







subsection \<open>The decision at the end of a drag\<close>




text \<open>
  The two durations that are not positive, on the example panel. With the duration
  \<open>0\<close> the frame at the time of the release completes the animation and writes
  \<open>NaN\<close> to the panel and to the backdrop, a later frame writes the target, and an
  earlier frame writes an infinite offset and goes on. With the duration \<open>- 100\<close> the
  animation of a drag that is to close the panel is still scheduled after 100 seconds,
  and \<open>hide()\<close> has not been called.
\<close>

lemma zero_duration_settle:
  "frameCallback (onPointerUp (- 57) 40 (fst zeroDurationExample))
     = Some (Animate (- 57) 57 0 40 NoCallback)
   \<and> transform (fst (run noCancel [PointerUp (- 57) 40, Frame 40] zeroDurationExample))
     = Some NaN
   \<and> map_option bd_opacity
        (backdrop (fst (run noCancel [PointerUp (- 57) 40, Frame 40] zeroDurationExample)))
     = Some NaN
   \<and> frameCallback (fst (run noCancel [PointerUp (- 57) 40, Frame 40] zeroDurationExample))
     = None
   \<and> transform (fst (run noCancel [PointerUp (- 57) 40, Frame 41] zeroDurationExample))
     = Some (Finite 0)
   \<and> transform (fst (run noCancel [PointerUp (- 57) 40, Frame 39] zeroDurationExample))
     = Some NegInfinity
   \<and> frameCallback (fst (run noCancel [PointerUp (- 57) 40, Frame 39] zeroDurationExample))
     = Some (Animate (- 57) 57 0 40 NoCallback)"
  by (simp add: zeroDurationExample_def eval_defs getProp_upd)

lemma negative_duration_never_settles:
  "frameCallback (onPointerUp 99 40 (fst negativeDurationExample))
     = Some (Animate 99 301 (- 100) 40 CallHide)
   \<and> frameCallback (fst (run noCancel [PointerUp 99 40, Frame 100000] negativeDurationExample))
     = Some (Animate 99 301 (- 100) 40 CallHide)
   \<and> isShown (fst (run noCancel [PointerUp 99 40, Frame 100000] negativeDurationExample))
   \<and> map ev_name
        (dispatched (snd (run noCancel [PointerUp 99 40, Frame 100000] negativeDurationExample)))
     = [SHOW, SHOWN]"
  by (simp add: negativeDurationExample_def eval_defs getProp_upd)

subsection \<open>Validation of the options at construction\<close>

lemma parseExpectedTypes_DefaultType:
  "parseExpectedTypes ''(boolean|string)'' = [''boolean'', ''string'']"
  "parseExpectedTypes ''boolean'' = [''boolean'']"
  "parseExpectedTypes ''number'' = [''number'']"
  by (simp_all add: parseExpectedTypes_def stripParens_def isSpace_def)

lemma getProp_map_add:
  "getProp (m ++ n) k = (case n k of None \<Rightarrow> getProp m k | Some v \<Rightarrow> v)"
  by (simp add: getProp_def map_add_def split: option.split)

lemma validateConfigTypes_None:
  assumes "\<And>p ts. (p, ts) \<in> set tbl \<Longrightarrow>
             getProp conf p = JUndefined
             \<or> getValueType (getProp conf p) \<in> set (parseExpectedTypes ts)"
  shows "validateConfigTypes n conf tbl = None"
  using assms
proof (induction tbl)
  case Nil
  then show ?case by simp
next
  case (Cons e tbl)
  obtain p ts where e: "e = (p, ts)" by (cases e)
  from Cons.prems [of p ts] e
  have ok: "getProp conf p = JUndefined
            \<or> getValueType (getProp conf p) \<in> set (parseExpectedTypes ts)"
    by simp
  have rest: "validateConfigTypes n conf tbl = None"
    by (rule Cons.IH) (use Cons.prems in auto)
  from ok rest show ?case
    by (auto simp add: e Let_def list_ex_iff)
qed

lemma validateConfigTypes_first:
  assumes "(name, types) \<in> set tbl"
    and "getProp conf name \<noteq> JUndefined"
    and "getValueType (getProp conf name) \<notin> set (parseExpectedTypes types)"
  shows "\<exists>pre p ts post.
           tbl = pre @ (p, ts) # post
           \<and> (\<forall>(q, qs) \<in> set pre.
                 getProp conf q = JUndefined
                 \<or> getValueType (getProp conf q) \<in> set (parseExpectedTypes qs))
           \<and> getProp conf p \<noteq> JUndefined
           \<and> getValueType (getProp conf p) \<notin> set (parseExpectedTypes ts)
           \<and> validateConfigTypes n conf tbl =
               Some (TypeError (invalidTypeMessage n p (parseExpectedTypes ts)
                                  (getValueType (getProp conf p))))"
  using assms
proof (induction tbl)
  case Nil
  then show ?case by simp
next
  case (Cons e tbl)
  obtain q qs where e: "e = (q, qs)" by (cases e)
  show ?case
  proof (cases "getProp conf q \<noteq> JUndefined
                \<and> getValueType (getProp conf q) \<notin> set (parseExpectedTypes qs)")
    case True
    then have "validateConfigTypes n conf (e # tbl) =
               Some (TypeError (invalidTypeMessage n q (parseExpectedTypes qs)
                                  (getValueType (getProp conf q))))"
      by (simp add: e Let_def list_ex_iff)
    with True show ?thesis
      by (intro exI [of _ "[]"] exI [of _ q] exI [of _ qs] exI [of _ tbl]) (simp add: e)
  next
    case False
    with Cons.prems e have mem: "(name, types) \<in> set tbl" by auto
    from Cons.IH [OF mem Cons.prems(2,3)]
    obtain pre p ts post where IH:
      "tbl = pre @ (p, ts) # post"
      "\<forall>(q, qs) \<in> set pre.
           getProp conf q = JUndefined
           \<or> getValueType (getProp conf q) \<in> set (parseExpectedTypes qs)"
      "getProp conf p \<noteq> JUndefined"
      "getValueType (getProp conf p) \<notin> set (parseExpectedTypes ts)"
      "validateConfigTypes n conf tbl =
         Some (TypeError (invalidTypeMessage n p (parseExpectedTypes ts)
                            (getValueType (getProp conf p))))"
      by blast
    from False IH(5) have v: "validateConfigTypes n conf (e # tbl) =
         Some (TypeError (invalidTypeMessage n p (parseExpectedTypes ts)
                            (getValueType (getProp conf p))))"
      by (auto simp add: e Let_def list_ex_iff)
    from False IH(1,2) have pre: "e # tbl = (e # pre) @ (p, ts) # post"
      "\<forall>(q, qs) \<in> set (e # pre).
           getProp conf q = JUndefined
           \<or> getValueType (getProp conf q) \<in> set (parseExpectedTypes qs)"
      by (auto simp add: e)
    from pre IH(3,4) v show ?thesis by blast
  qed
qed

text \<open>
  Claim C8 says that any option value whose runtime type is not among the declared
  types makes the constructor raise a type error. The value \<open>undefined\<close> has the type
  name \<open>undefined\<close>, which no option declares, and \<open>validateConfigTypes\<close> skips it:
  constructing with \<open>{ animationDuration: undefined }\<close> creates the instance, whose
  option then reads \<open>undefined\<close>.
\<close>

theorem undefined_option_counterexample:
  "getValueType JUndefined \<notin> set (parseExpectedTypes ''number'')
   \<and> (case constructor (ElementRef 1) [''animationDuration'' \<mapsto> JUndefined] examplePage of
         Inl err \<Rightarrow> False
       | Inr (r, pg) \<Rightarrow>
           map_option (\<lambda>s. cfg s ''animationDuration'') (heap pg r) = Some JUndefined)"
proof -
  have v: "validateConfigTypes NAME
             (Default(''animationDuration'' \<mapsto> JUndefined)) DefaultType = None"
    by (rule validateConfigTypes_None)
       (auto simp add: DefaultType_def getProp_upd Default_values getValueType_cases
          parseExpectedTypes_DefaultType)
  show ?thesis
    by (simp add: getValueType_cases parseExpectedTypes_DefaultType constructor_def
        resolveElement_def examplePage_def exampleDocument_def v Let_def cfg_def newSheet_def
        getProp_upd)
qed

text \<open>
  Claim C8, amended. Constructing over an element that resolves and has no instance,
  with an option value other than \<open>undefined\<close> whose runtime type is not among the
  declared types of its option, raises a type error and creates nothing. The message
  names the first option, in the order of the type table, whose merged value is defined
  and of a wrong type, with the types expected and the type received. Constructing with
  \<open>{ animationDuration: "300" }\<close> on an element without data attributes names
  \<open>animationDuration\<close>, expects \<open>number\<close> and reports \<open>string\<close>.
\<close>

theorem invalid_option_type:
  assumes el: "resolveElement (doc pg) elementArg = Some el"
    and fresh: "INSTANCES (doc pg) el = None"
    and opt: "(name, types) \<in> set DefaultType"
    and given: "configArg name = Some v" "v \<noteq> JUndefined"
    and bad: "getValueType v \<notin> set (parseExpectedTypes types)"
  shows "\<exists>pre p ts post.
           DefaultType = pre @ (p, ts) # post
           \<and> (let merged = Default ++ dataAttributes (doc pg) el ++ configArg;
                   actual = getProp merged p
               in (\<forall>(q, qs) \<in> set pre.
                     getProp merged q = JUndefined
                     \<or> getValueType (getProp merged q) \<in> set (parseExpectedTypes qs))
                  \<and> actual \<noteq> JUndefined
                  \<and> getValueType actual \<notin> set (parseExpectedTypes ts)
                  \<and> constructor elementArg configArg pg =
                      Inl (TypeError (invalidTypeMessage NAME p (parseExpectedTypes ts)
                                        (getValueType actual))))"
proof -
  define merged where "merged = Default ++ dataAttributes (doc pg) el ++ configArg"
  from given have m: "getProp merged name = v"
    by (simp add: merged_def getProp_map_add)
  from validateConfigTypes_first [of name types DefaultType merged NAME] opt given(2) bad m
  obtain pre p ts post where F:
      "DefaultType = pre @ (p, ts) # post"
      "\<forall>(q, qs) \<in> set pre.
           getProp merged q = JUndefined
           \<or> getValueType (getProp merged q) \<in> set (parseExpectedTypes qs)"
      "getProp merged p \<noteq> JUndefined"
      "getValueType (getProp merged p) \<notin> set (parseExpectedTypes ts)"
      "validateConfigTypes NAME merged DefaultType =
         Some (TypeError (invalidTypeMessage NAME p (parseExpectedTypes ts)
                            (getValueType (getProp merged p))))"
    by auto
  have c: "constructor elementArg configArg pg =
      Inl (TypeError (invalidTypeMessage NAME p (parseExpectedTypes ts)
                        (getValueType (getProp merged p))))"
    by (simp add: constructor_def el fresh Let_def merged_def [symmetric] F(5))
  show ?thesis
    unfolding Let_def merged_def [symmetric]
    using F(1-4) c by blast
qed

theorem invalid_option_type_witness:
  "constructor (ElementRef 1) [''animationDuration'' \<mapsto> JStr ''300''] examplePage =
     Inl (TypeError
       (''[sheet] Option '' @ [CHR 0x22] @ ''animationDuration'' @ [CHR 0x22] @
        '' has invalid type: expected number, but received string.''))"
proof -
  have el: "resolveElement (doc examplePage) (ElementRef 1) = Some 1"
    by (simp add: resolveElement_def)
  have fresh: "INSTANCES (doc examplePage) 1 = None"
    by (simp add: examplePage_def exampleDocument_def)
  have opt: "(''animationDuration'', ''number'') \<in> set DefaultType"
    by (simp add: DefaultType_def)
  have given: "[''animationDuration'' \<mapsto> JStr ''300''] ''animationDuration'' = Some (JStr ''300'')"
    "JStr ''300'' \<noteq> JUndefined"
    by simp_all
  have bad: "getValueType (JStr ''300'') \<notin> set (parseExpectedTypes ''number'')"
    by (simp add: getValueType_cases parseExpectedTypes_DefaultType)
  from invalid_option_type
         [of examplePage "ElementRef 1" 1 "''animationDuration''" "''number''"
             "[''animationDuration'' \<mapsto> JStr ''300'']" "JStr ''300''",
          OF el fresh opt given bad]
  obtain e where raised:
    "constructor (ElementRef 1) [''animationDuration'' \<mapsto> JStr ''300''] examplePage = Inl e"
    unfolding Let_def by blast
  have v: "validateConfigTypes NAME
             (Default(''animationDuration'' \<mapsto> JStr ''300'')) DefaultType =
           Some (TypeError
             (''[sheet] Option '' @ [CHR 0x22] @ ''animationDuration'' @ [CHR 0x22] @
              '' has invalid type: expected number, but received string.''))"
    by (simp add: DefaultType_def getProp_upd Default_values getValueType_cases
        parseExpectedTypes_DefaultType invalidTypeMessage_def NAME_def Let_def)
  have da: "dataAttributes (doc examplePage) 1 = Map.empty"
    by (simp add: examplePage_def exampleDocument_def)
  have direct:
    "constructor (ElementRef 1) [''animationDuration'' \<mapsto> JStr ''300''] examplePage =
     Inl (TypeError
       (''[sheet] Option '' @ [CHR 0x22] @ ''animationDuration'' @ [CHR 0x22] @
        '' has invalid type: expected number, but received string.''))"
    by (simp add: constructor_def el [simplified] fresh [simplified] da [simplified] Let_def v)
  from raised direct show ?thesis by simp
qed

subsection \<open>Construction over an element that has an instance\<close>

text \<open>
  Claim C10. When the element already has an instance, the constructor and
  \<open>getOrCreateInstance\<close> return that instance and leave the page as it is, whatever
  the options passed: they are not merged into the instance and not validated, so
  options of a wrong type raise nothing.
\<close>

theorem existing_instance_returned:
  assumes "resolveElement (doc pg) elementArg = Some el"
    and "INSTANCES (doc pg) el = Some r"
  shows "constructor elementArg configArg pg = Inr (r, pg)
         \<and> getOrCreateInstance elementArg configArg pg = Inr (r, pg)"
  using assms by (simp add: constructor_def getOrCreateInstance_def getInstance_def)

lemma validateConfigTypes_Default:
  "validateConfigTypes NAME Default DefaultType = None"
  by (rule validateConfigTypes_None)
     (auto simp add: DefaultType_def Default_values getValueType_cases
        parseExpectedTypes_DefaultType)

lemma validateConfigTypes_focusOff:
  "validateConfigTypes NAME (Default(''focus'' \<mapsto> JBool False)) DefaultType = None"
  by (rule validateConfigTypes_None)
     (auto simp add: DefaultType_def getProp_upd Default_values getValueType_cases
        parseExpectedTypes_DefaultType)

lemma constructedPage_eval:
  "constructedPage =
     \<lparr>doc = exampleDocument
        \<lparr>INSTANCES := [1 \<mapsto> 0],
         attributes := (\<lambda>n. Map.empty)
           (1 := [''role'' \<mapsto> ''dialog'', ''aria-modal'' \<mapsto> ''true'',
                  ''tabindex'' \<mapsto> ''-1''])\<rparr>,
      heap = [0 \<mapsto> newSheet 1 Default], nextRef = 1\<rparr>"
  by (simp add: constructedPage_def pageAfter_def constructor_def resolveElement_def
      examplePage_def exampleDocument_def Let_def validateConfigTypes_Default
      setupAccessibility_def)

theorem existing_instance_returned_witness:
  "constructor (ElementRef 1) [''animationDuration'' \<mapsto> JStr ''300''] constructedPage
     = Inr (0, constructedPage)
   \<and> getOrCreateInstance (ElementRef 1) [''animationDuration'' \<mapsto> JStr ''300'']
       constructedPage = Inr (0, constructedPage)
   \<and> map_option config (heap constructedPage 0) = Some Default"
proof -
  have el: "resolveElement (doc constructedPage) (ElementRef 1) = Some 1"
    by (simp add: resolveElement_def)
  have reg: "INSTANCES (doc constructedPage) 1 = Some 0"
    by (simp add: constructedPage_eval)
  have c: "map_option config (heap constructedPage 0) = Some Default"
    by (simp add: constructedPage_eval newSheet_def)
  from existing_instance_returned
         [of constructedPage "ElementRef 1" 1 0 "[''animationDuration'' \<mapsto> JStr ''300'']",
          OF el reg] c
  show ?thesis by simp
qed

subsection \<open>Focus at the end of a hide\<close>

lemma focusOffPage_eval:
  "focusOffPage =
     \<lparr>doc = exampleDocument
        \<lparr>INSTANCES := [1 \<mapsto> 0],
         attributes := (\<lambda>n. Map.empty)
           (1 := [''role'' \<mapsto> ''dialog'', ''aria-modal'' \<mapsto> ''true'',
                  ''tabindex'' \<mapsto> ''-1''])\<rparr>,
      heap = [0 \<mapsto> newSheet 1 (Default(''focus'' \<mapsto> JBool False))], nextRef = 1\<rparr>"
  by (simp add: focusOffPage_def pageAfter_def constructor_def resolveElement_def
      examplePage_def exampleDocument_def Let_def validateConfigTypes_focusOff
      setupAccessibility_def)

text \<open>
  \<open>restoreFocus\<close> does not read the \<open>focus\<close> option: whenever an element was
  captured by \<open>show()\<close> and has a \<open>focus\<close> method, the end of the hide focuses it.
\<close>

lemma finalizeHide_restores_focus:
  assumes "previousElement s = Some p" and "hasFocusMethod d p"
  shows "activeElement (snd (finalizeHide L (s, d))) = Some p
         \<and> focusCalls (snd (finalizeHide L (s, d))) = focusCalls d @ [p]"
  using assms
  by (auto simp add: finalizeHide_def Let_def case_prod_beta removeBackdrop_def
      restoreFocus_def focusOn_def triggerEvent_def resetBodyPadding_def split: option.split)

text \<open>
  Claim C4 says that with the \<open>focus\<close> option disabled no focus is restored when the
  hide completes. On the example page the button (element 2) has the focus; an instance
  is constructed with \<open>{ focus: false }\<close> and shown, the user moves the focus to the
  input (element 3), and the panel is hidden. When the hide completes, \<open>focus()\<close> is
  called on the button and the focus is back on it.
\<close>

theorem focus_restored_with_focus_off:
  "map_option (\<lambda>s. cfg s ''focus'') (heap focusOffPage 0) = Some (JBool False)
   \<and> activeElement (doc (onInstance
         (run noCancel [Show, TransitionEnd, UserFocus 3, Hide, TransitionEnd]) 0
         focusOffPage)) = Some 2
   \<and> focusCalls (doc (onInstance
         (run noCancel [Show, TransitionEnd, UserFocus 3, Hide, TransitionEnd]) 0
         focusOffPage)) = [2]"
  by (simp add: focusOffPage_eval onInstance_def eval_defs getProp_upd)

subsection \<open>What a hide and a dispose give back to the page\<close>

text \<open>
  Claim C9 says that a hide and a dispose give the inline padding and overflow of
  \<open>body\<close> the values they had before the instance changed them. On a page whose
  \<open>body\<close> has an inline right padding of 10 pixels and \<open>overflow: scroll\<close>, both
  are empty after show and hide, and after show and dispose: \<open>resetBodyPadding\<close>
  clears them.
\<close>

theorem body_style_cleared:
  "paddingRight styledDocument = CssPx 10
   \<and> overflow styledDocument = CssText ''scroll''
   \<and> paddingRight (snd (run noCancel [Show, TransitionEnd, Hide, TransitionEnd]
                           (newSheet 1 Default, styledDocument))) = CssEmpty
   \<and> overflow (snd (run noCancel [Show, TransitionEnd, Hide, TransitionEnd]
                       (newSheet 1 Default, styledDocument))) = CssEmpty
   \<and> paddingRight (snd (run noCancel [Show, TransitionEnd, Dispose]
                           (newSheet 1 Default, styledDocument))) = CssEmpty
   \<and> overflow (snd (run noCancel [Show, TransitionEnd, Dispose]
                       (newSheet 1 Default, styledDocument))) = CssEmpty"
  by (simp add: styledDocument_def eval_defs)

text \<open>
  The inert markers are recorded and restored by each instance for the nodes it marked.
  With two panels open at once the records overlap: when the first panel is hidden while
  the second is open, the button is no longer inert, and when the second is hidden
  afterwards the button is left inert although no panel is open.
\<close>

lemma twoSheetsPage_eval:
  "twoSheetsPage =
     \<lparr>doc = exampleDocument
        \<lparr>INSTANCES := [1 \<mapsto> 0, 3 \<mapsto> 1],
         attributes := (\<lambda>n. Map.empty)
           (1 := [''role'' \<mapsto> ''dialog'', ''aria-modal'' \<mapsto> ''true'',
                  ''tabindex'' \<mapsto> ''-1''],
            3 := [''role'' \<mapsto> ''dialog'', ''aria-modal'' \<mapsto> ''true'',
                  ''tabindex'' \<mapsto> ''-1''])\<rparr>,
      heap = [0 \<mapsto> newSheet 1 Default, 1 \<mapsto> newSheet 3 Default], nextRef = 2\<rparr>"
  by (simp add: twoSheetsPage_def constructedPage_eval pageAfter_def constructor_def
      resolveElement_def exampleDocument_def Let_def validateConfigTypes_Default
      setupAccessibility_def)

lemma two_sheets_inert:
  "map (inert (doc (onInstance (run noCancel [Hide, TransitionEnd]) 0
         (onInstance (run noCancel [Show, TransitionEnd]) 1
           (onInstance (run noCancel [Show, TransitionEnd]) 0 twoSheetsPage))))) [1, 2, 3]
     = [True, False, False]
   \<and> map (inert (doc (onInstance (run noCancel [Hide, TransitionEnd]) 1
         (onInstance (run noCancel [Hide, TransitionEnd]) 0
           (onInstance (run noCancel [Show, TransitionEnd]) 1
             (onInstance (run noCancel [Show, TransitionEnd]) 0 twoSheetsPage)))))) [1, 2, 3]
     = [False, True, False]"
  by (simp add: twoSheetsPage_eval onInstance_def eval_defs)

subsection \<open>The inert markers of one instance\<close>

text \<open>
  For one instance on its own the inert markers come back as they were: marking the
  children of \<open>body\<close> and then removing the marks leaves the \<open>inert\<close> property and
  the \<open>aria-hidden\<close> attribute of every element as before, and the records empty.
\<close>

lemma supports_restoreNode: "SUPPORTS_INERT (restoreNode e d) = SUPPORTS_INERT d"
  by (simp add: restoreNode_def case_prod_beta split: previous_state.split option.split)

lemma supports_fold_restoreNode: "SUPPORTS_INERT (fold restoreNode es d) = SUPPORTS_INERT d"
  by (induction es arbitrary: d) (simp_all add: supports_restoreNode)

lemma restoreNode_other:
  "n \<noteq> fst e \<Longrightarrow> inert (restoreNode e d) n = inert d n
     \<and> ariaHidden (restoreNode e d) n = ariaHidden d n"
  by (simp add: restoreNode_def case_prod_beta split: previous_state.split option.split)

lemma fold_restoreNode_other:
  "n \<notin> fst ` set es \<Longrightarrow> inert (fold restoreNode es d) n = inert d n
     \<and> ariaHidden (fold restoreNode es d) n = ariaHidden d n"
  by (induction es arbitrary: d) (simp_all add: restoreNode_other)

text \<open>Marking a node that the records do not mention commutes with restoring them.\<close>

lemma fold_restoreNode_mark_inert:
  "n \<notin> fst ` set es \<Longrightarrow>
   inert (fold restoreNode es (d\<lparr>inert := (inert d)(n := b)\<rparr>))
     = (inert (fold restoreNode es d))(n := b)
   \<and> ariaHidden (fold restoreNode es (d\<lparr>inert := (inert d)(n := b)\<rparr>))
     = ariaHidden (fold restoreNode es d)"
proof (induction es arbitrary: d)
  case Nil
  then show ?case by simp
next
  case (Cons e es)
  obtain m p where e: "e = (m, p)" by (cases e)
  with Cons.prems have ne: "n \<noteq> m" and rest: "n \<notin> fst ` set es" by auto
  have step: "restoreNode e (d\<lparr>inert := (inert d)(n := b)\<rparr>)
            = (restoreNode e d)\<lparr>inert := (inert (restoreNode e d))(n := b)\<rparr>"
  proof (cases "SUPPORTS_INERT d")
    case True
    with ne show ?thesis by (simp add: restoreNode_def e fun_upd_twist)
  next
    case False
    then show ?thesis
      by (simp add: restoreNode_def e split: previous_state.split option.split)
  qed
  show ?case
    by (simp only: fold.simps o_apply step Cons.IH [OF rest])
qed

lemma fold_restoreNode_mark_aria:
  "n \<notin> fst ` set es \<Longrightarrow>
   ariaHidden (fold restoreNode es (d\<lparr>ariaHidden := (ariaHidden d)(n := a)\<rparr>))
     = (ariaHidden (fold restoreNode es d))(n := a)
   \<and> inert (fold restoreNode es (d\<lparr>ariaHidden := (ariaHidden d)(n := a)\<rparr>))
     = inert (fold restoreNode es d)"
proof (induction es arbitrary: d)
  case Nil
  then show ?case by simp
next
  case (Cons e es)
  obtain m p where e: "e = (m, p)" by (cases e)
  with Cons.prems have ne: "n \<noteq> m" and rest: "n \<notin> fst ` set es" by auto
  have step: "restoreNode e (d\<lparr>ariaHidden := (ariaHidden d)(n := a)\<rparr>)
          = (restoreNode e d)\<lparr>ariaHidden := (ariaHidden (restoreNode e d))(n := a)\<rparr>"
    using ne
    by (simp add: restoreNode_def e fun_upd_twist split: previous_state.split option.split)
  show ?case
    by (simp only: fold.simps o_apply step Cons.IH [OF rest])
qed

lemma mapSet_fresh: "k \<notin> fst ` set kvs \<Longrightarrow> mapSet k v kvs = kvs @ [(k, v)]"
  by (induction kvs) auto

lemma mapSet_keys: "fst ` set (mapSet k v kvs) = insert k (fst ` set kvs)"
proof (induction kvs)
  case Nil
  then show ?case by simp
next
  case (Cons e kvs)
  obtain k' v' where e: "e = (k', v')" by (cases e)
  show ?case
  proof (cases "k' = k")
    case True
    then show ?thesis by (auto simp add: e)
  next
    case False
    then have "fst ` set (mapSet k v (e # kvs)) = insert k' (fst ` set (mapSet k v kvs))"
      by (simp add: e)
    also have "\<dots> = insert k' (insert k (fst ` set kvs))"
      by (simp only: Cons.IH)
    finally show ?thesis by (auto simp add: e)
  qed
qed

lemma applyInertNode_keys:
  "fst ` set (inertedNodes (fst (applyInertNode n sd)))
     \<subseteq> insert n (fst ` set (inertedNodes (fst sd)))"
  by (auto simp add: applyInertNode_def case_prod_beta mapSet_keys)

text \<open>
  One node marked and the records restored afterwards: the document reads as if the
  records had been restored without the marking.
\<close>

lemma applyInertNode_undone:
  assumes "n \<notin> fst ` set (inertedNodes (fst sd))"
  shows "inert (fold restoreNode (inertedNodes (fst (applyInertNode n sd)))
                  (snd (applyInertNode n sd)))
           = inert (fold restoreNode (inertedNodes (fst sd)) (snd sd))
         \<and> ariaHidden (fold restoreNode (inertedNodes (fst (applyInertNode n sd)))
                  (snd (applyInertNode n sd)))
           = ariaHidden (fold restoreNode (inertedNodes (fst sd)) (snd sd))"
proof (cases sd)
  case (Pair s d)
  from assms Pair have fresh: "n \<notin> fst ` set (inertedNodes s)" by simp
  note other = fold_restoreNode_other [OF fresh, of d]
  note sup = supports_fold_restoreNode [of "inertedNodes s"]
  show ?thesis
  proof (cases "map_option bd_node (backdrop s) = Some n \<or> element s = Some n")
    case True
    then show ?thesis by (simp add: Pair applyInertNode_def)
  next
    case skip: False
    show ?thesis
    proof (cases "SUPPORTS_INERT d")
      case True
      have sup': "SUPPORTS_INERT
          (fold restoreNode (inertedNodes s) (d\<lparr>inert := (inert d)(n := True)\<rparr>))"
        using True by (simp add: sup)
      have triv: "(inert (fold restoreNode (inertedNodes s) d))(n := inert d n)
                    = inert (fold restoreNode (inertedNodes s) d)"
        using other by (simp add: fun_upd_idem_iff)
      have ap: "applyInertNode n (s, d) =
                  (s\<lparr>inertedNodes := inertedNodes s @ [(n, PrevInert (inert d n))]\<rparr>,
                   d\<lparr>inert := (inert d)(n := True)\<rparr>)"
        using skip True by (auto simp add: applyInertNode_def mapSet_fresh [OF fresh])
      have "inert (fold restoreNode (inertedNodes s @ [(n, PrevInert (inert d n))])
                     (d\<lparr>inert := (inert d)(n := True)\<rparr>))
              = inert (fold restoreNode (inertedNodes s) d)
            \<and> ariaHidden (fold restoreNode (inertedNodes s @ [(n, PrevInert (inert d n))])
                     (d\<lparr>inert := (inert d)(n := True)\<rparr>))
              = ariaHidden (fold restoreNode (inertedNodes s) d)"
        using fold_restoreNode_mark_inert [OF fresh, of d True] sup' triv
        by (simp add: restoreNode_def)
      then show ?thesis by (simp add: Pair ap)
    next
      case False
      have sup': "\<not> SUPPORTS_INERT
          (fold restoreNode (inertedNodes s)
             (d\<lparr>ariaHidden := (ariaHidden d)(n \<mapsto> ''true'')\<rparr>))"
        using False by (simp add: sup)
      have triv: "(ariaHidden (fold restoreNode (inertedNodes s) d))(n := ariaHidden d n)
                    = ariaHidden (fold restoreNode (inertedNodes s) d)"
        using other by (simp add: fun_upd_idem_iff)
      have ap: "applyInertNode n (s, d) =
                  (s\<lparr>inertedNodes := inertedNodes s @ [(n, PrevAriaHidden (ariaHidden d n))]\<rparr>,
                   d\<lparr>ariaHidden := (ariaHidden d)(n \<mapsto> ''true'')\<rparr>)"
        using skip False by (auto simp add: applyInertNode_def mapSet_fresh [OF fresh])
      have "inert (fold restoreNode (inertedNodes s @ [(n, PrevAriaHidden (ariaHidden d n))])
                     (d\<lparr>ariaHidden := (ariaHidden d)(n \<mapsto> ''true'')\<rparr>))
              = inert (fold restoreNode (inertedNodes s) d)
            \<and> ariaHidden (fold restoreNode (inertedNodes s @ [(n, PrevAriaHidden (ariaHidden d n))])
                     (d\<lparr>ariaHidden := (ariaHidden d)(n \<mapsto> ''true'')\<rparr>))
              = ariaHidden (fold restoreNode (inertedNodes s) d)"
        using fold_restoreNode_mark_aria [OF fresh, of d "Some ''true''"] sup' triv
        by (cases "ariaHidden d n") (simp_all add: restoreNode_def)
      then show ?thesis by (simp add: Pair ap)
    qed
  qed
qed

lemma fold_applyInertNode_undone:
  assumes "distinct ns" and "set ns \<inter> fst ` set (inertedNodes (fst sd)) = {}"
  shows "inert (fold restoreNode (inertedNodes (fst (fold applyInertNode ns sd)))
                  (snd (fold applyInertNode ns sd)))
           = inert (fold restoreNode (inertedNodes (fst sd)) (snd sd))
         \<and> ariaHidden (fold restoreNode (inertedNodes (fst (fold applyInertNode ns sd)))
                  (snd (fold applyInertNode ns sd)))
           = ariaHidden (fold restoreNode (inertedNodes (fst sd)) (snd sd))"
  using assms
proof (induction ns arbitrary: sd)
  case Nil
  then show ?case by simp
next
  case (Cons n ns)
  from Cons.prems have fresh: "n \<notin> fst ` set (inertedNodes (fst sd))" by auto
  from Cons.prems applyInertNode_keys [of n sd]
  have disj: "set ns \<inter> fst ` set (inertedNodes (fst (applyInertNode n sd))) = {}"
    by auto
  from Cons.prems have dist: "distinct ns" by simp
  from Cons.IH [OF dist disj] applyInertNode_undone [OF fresh]
  show ?case by simp
qed

lemma inert_markers_restored:
  assumes "inertedNodes s = []" and "distinct (bodyChildren d)"
  shows "inert (snd (removeInert (applyInert (s, d)))) = inert d
         \<and> ariaHidden (snd (removeInert (applyInert (s, d)))) = ariaHidden d
         \<and> inertedNodes (fst (removeInert (applyInert (s, d)))) = []"
proof -
  from fold_applyInertNode_undone [of "bodyChildren d" "(s, d)"] assms
  have "inert (fold restoreNode (inertedNodes (fst (applyInert (s, d))))
                  (snd (applyInert (s, d)))) = inert d
        \<and> ariaHidden (fold restoreNode (inertedNodes (fst (applyInert (s, d))))
                  (snd (applyInert (s, d)))) = ariaHidden d"
    by (simp add: applyInert_def)
  then show ?thesis
    by (cases "inertedNodes (fst (applyInert (s, d))) = []")
       (auto simp add: removeInert_def case_prod_beta)
qed

end
